theory Spec2Isabelle
  imports Complex_Main
begin

section \<open>Python strings\<close>

text \<open>
  The calculator reads the editor text as a Python \<open>str\<close> and works on it with
  \<open>split\<close>, \<open>strip\<close>, \<open>startswith\<close>, \<open>endswith\<close> and the substring test \<open>in\<close>.
  A \<open>string\<close> here is the list of the text's code points (below 256).
\<close>

definition isspace :: "char \<Rightarrow> bool" where
  \<comment> \<open>\<open>str.isspace\<close> on one character: tab, LF, VT, FF, CR, FS, GS, RS, US, space, NEL, NBSP\<close>
  "isspace c = (of_char c \<in> set [9, 10, 11, 12, 13, 28, 29, 30, 31, 32, 133, 160 :: nat])"

definition strip :: "string \<Rightarrow> string" where
  \<comment> \<open>\<open>s.strip()\<close>\<close>
  "strip s = rev (dropWhile isspace (rev (dropWhile isspace s)))"

definition startswith :: "string \<Rightarrow> string \<Rightarrow> bool" where
  \<comment> \<open>\<open>s.startswith(p)\<close>\<close>
  "startswith s p = (take (length p) s = p)"

definition endswith :: "string \<Rightarrow> string \<Rightarrow> bool" where
  \<comment> \<open>\<open>s.endswith(p)\<close>\<close>
  "endswith s p = startswith (rev s) (rev p)"

fun contains :: "string \<Rightarrow> string \<Rightarrow> bool" where
  \<comment> \<open>\<open>sub in s\<close>\<close>
  "contains [] sub = (sub = [])"
| "contains (x # xs) sub = (startswith (x # xs) sub \<or> contains xs sub)"

fun split_on :: "char \<Rightarrow> string \<Rightarrow> string list" where
  \<comment> \<open>\<open>s.split(c)\<close> for a one-character separator\<close>
  "split_on c [] = [[]]"
| "split_on c (x # xs) =
     (if x = c then [] # split_on c xs
      else (case split_on c xs of [] \<Rightarrow> [[x]] | w # ws \<Rightarrow> (x # w) # ws))"

fun split_once :: "char \<Rightarrow> string \<Rightarrow> string list" where
  \<comment> \<open>\<open>s.split(c, 1)\<close>: at most one split, at the first separator\<close>
  "split_once c [] = [[]]"
| "split_once c (x # xs) =
     (if x = c then [[], xs]
      else (case split_once c xs of [] \<Rightarrow> [[x]] | w # ws \<Rightarrow> (x # w) # ws))"

definition newline :: char where
  "newline = CHR 0x0A"

definition join :: "string \<Rightarrow> string list \<Rightarrow> string" where
  \<comment> \<open>\<open>sep.join(parts)\<close>\<close>
  "join sep parts = concat (case parts of [] \<Rightarrow> [] | p # ps \<Rightarrow> p # map (\<lambda>q. sep @ q) ps)"

section \<open>Python values\<close>

text \<open>
  A float is a sign, a significand and a binary exponent (the value is
  \<open>\<plusminus> m * 2 ^ e\<close>), or an infinity, or a NaN. Negative zero is \<open>Fin True 0 e\<close>.
  Every IEEE double is such a triple; the model does not bound \<open>m\<close> and \<open>e\<close>.
\<close>

datatype pyfloat = Fin bool nat int | Inf bool | NaN

text \<open>
  \<open>format_result\<close> looks at the object it is given: at its type, at its number, at its
  length and its elements. A \<open>val\<close> is what it can see there.

  \<open>VIter kind name xs\<close> is an object that has \<open>__iter__\<close> and is not a string; \<open>name\<close> is
  the name of its type and \<open>xs\<close> are its elements in the order of iteration. A \<open>Sequence\<close>
  (list, tuple, range, bytes, array) has \<open>len\<close> and slices, and the slice \<open>[:3]\<close> holds its
  first three elements; a \<open>Sized\<close> object (set, dict) has \<open>len\<close> and no slices; an
  \<open>Unsized\<close> one (generator, iterator) has neither.

  \<open>VOpaque name\<close> is any other object (a function, a module, a symbolic expression), known
  by a name.
\<close>

datatype iterkind = Sequence | Sized | Unsized

datatype val =
    VNone
  | VBool bool
  | VInt int
  | VFloat pyfloat
  | VComplex pyfloat pyfloat
  | VIter iterkind string "val list"
  | VStr string
  | VOpaque string

section \<open>Formatting numbers as Python does\<close>

definition digit_char :: "nat \<Rightarrow> char" where
  "digit_char n = ''0123456789'' ! (n mod 10)"

fun str_nat :: "nat \<Rightarrow> string" where
  "str_nat n = (if n < 10 then [digit_char n] else str_nat (n div 10) @ [digit_char n])"

declare str_nat.simps [simp del]

definition str_int :: "int \<Rightarrow> string" where
  \<comment> \<open>the text of \<open>str(n)\<close> for an \<open>int\<close> that \<open>str\<close> can print; whether it can is
      \<open>str_int_limited\<close> below\<close>
  "str_int i = (if i < 0 then ''-'' @ str_nat (nat (- i)) else str_nat (nat i))"

definition str_bool :: "bool \<Rightarrow> string" where
  \<comment> \<open>\<open>str(b)\<close> for a \<open>bool\<close>\<close>
  "str_bool b = (if b then ''True'' else ''False'')"

text \<open>
  The magnitude of \<open>Fin s m e\<close> is the fraction \<open>fnum m e / fden e\<close>.
\<close>

definition fnum :: "nat \<Rightarrow> int \<Rightarrow> nat" where
  "fnum m e = (if 0 \<le> e then m * 2 ^ nat e else m)"

definition fden :: "int \<Rightarrow> nat" where
  "fden e = (if 0 \<le> e then 1 else 2 ^ nat (- e))"

definition ge_pow10 :: "nat \<Rightarrow> nat \<Rightarrow> int \<Rightarrow> bool" where
  \<comment> \<open>\<open>a / b \<ge> 10 ^ k\<close>, for an exponent of either sign\<close>
  "ge_pow10 a b k = (if 0 \<le> k then b * 10 ^ nat k \<le> a else b \<le> a * 10 ^ nat (- k))"

definition dec_exp :: "nat \<Rightarrow> nat \<Rightarrow> int" where
  \<comment> \<open>the decimal exponent of \<open>a / b\<close> (both positive): the \<open>x\<close> with \<open>10 ^ x \<le> a / b < 10 ^ (x + 1)\<close>\<close>
  "dec_exp a b =
     (let k = int (length (str_nat a)) - int (length (str_nat b))
      in if ge_pow10 a b k then k else k - 1)"

definition round_half_even :: "nat \<Rightarrow> nat \<Rightarrow> nat" where
  \<comment> \<open>\<open>a / b\<close> rounded to the nearest integer, a tie to the even one\<close>
  "round_half_even a b =
     (let q = a div b; r = a mod b
      in if b < 2 * r \<or> (2 * r = b \<and> odd q) then q + 1 else q)"

definition scaled_round :: "nat \<Rightarrow> nat \<Rightarrow> int \<Rightarrow> nat" where
  \<comment> \<open>\<open>(a / b) / 10 ^ s\<close> rounded to the nearest integer\<close>
  "scaled_round a b s =
     (if 0 \<le> s then round_half_even a (b * 10 ^ nat s)
      else round_half_even (a * 10 ^ nat (- s)) b)"

definition sig_digits :: "nat \<Rightarrow> nat \<Rightarrow> nat \<Rightarrow> string \<times> int" where
  \<comment> \<open>\<open>a / b\<close> correctly rounded to \<open>n\<close> significant decimal digits: the digits and the
      decimal exponent of the first one\<close>
  "sig_digits n a b =
     (if a = 0 then (replicate n CHR ''0'', 0)
      else let x = dec_exp a b;
               d = scaled_round a b (x - (int n - 1))
           in if d = 10 ^ n then (str_nat (10 ^ (n - 1)), x + 1) else (str_nat d, x))"

definition exp_text :: "int \<Rightarrow> string" where
  \<comment> \<open>the exponent field: a sign and at least two digits\<close>
  "exp_text x =
     (if x < 0 then ''-'' else ''+'') @ (if \<bar>x\<bar> < 10 then ''0'' else []) @ str_nat (nat \<bar>x\<bar>)"

definition sign_text :: "bool \<Rightarrow> string" where
  "sign_text s = (if s then ''-'' else [])"

definition strip_zeros :: "string \<Rightarrow> string" where
  \<comment> \<open>remove the trailing zeros of a fraction part\<close>
  "strip_zeros ds = rev (dropWhile (\<lambda>c. c = CHR ''0'') (rev ds))"

definition with_point :: "string \<Rightarrow> string \<Rightarrow> string" where
  \<comment> \<open>integer part, and the fraction part after a point when there is one\<close>
  "with_point ip fp = (if fp = [] then ip else ip @ ''.'' @ fp)"

fun format_e :: "nat \<Rightarrow> pyfloat \<Rightarrow> string" where
  \<comment> \<open>\<open>f"{x:.{p}e}"\<close>: one digit before the point and \<open>p\<close> digits after it\<close>
  "format_e p NaN = ''nan''"
| "format_e p (Inf s) = sign_text s @ ''inf''"
| "format_e p (Fin s m e) =
     (case sig_digits (p + 1) (fnum m e) (fden e) of
        (ds, x) \<Rightarrow> sign_text s @ with_point (take 1 ds) (drop 1 ds) @ ''e'' @ exp_text x)"

fun format_g :: "nat \<Rightarrow> pyfloat \<Rightarrow> string" where
  \<comment> \<open>\<open>f"{x:.{p}g}"\<close>: \<open>p\<close> significant digits (one when \<open>p = 0\<close>), fixed notation when
      the decimal exponent is in \<open>[-4, p)\<close>, trailing zeros removed\<close>
  "format_g p NaN = ''nan''"
| "format_g p (Inf s) = sign_text s @ ''inf''"
| "format_g p (Fin s m e) =
     (let n = (if p = 0 then 1 else p)
      in case sig_digits n (fnum m e) (fden e) of
        (ds, x) \<Rightarrow>
          sign_text s @
          (if - 4 \<le> x \<and> x < int n then
             (if 0 \<le> x then with_point (take (nat x + 1) ds) (strip_zeros (drop (nat x + 1) ds))
              else with_point ''0'' (strip_zeros (replicate (nat (- x) - 1) CHR ''0'' @ ds)))
           else with_point (take 1 ds) (strip_zeros (drop 1 ds)) @ ''e'' @ exp_text x))"

declare format_e.simps [simp del] format_g.simps [simp del]

subsection \<open>Comparing floats\<close>

definition fsigned :: "bool \<Rightarrow> nat \<Rightarrow> int \<Rightarrow> int" where
  \<comment> \<open>the signed numerator of \<open>Fin s m e\<close> over \<open>fden e\<close>\<close>
  "fsigned s m e = (if s then - int (fnum m e) else int (fnum m e))"

fun float_lt :: "pyfloat \<Rightarrow> pyfloat \<Rightarrow> bool" where
  \<comment> \<open>\<open>a < b\<close>; every comparison with a NaN is false\<close>
  "float_lt NaN b = False"
| "float_lt a NaN = False"
| "float_lt (Inf s) (Inf t) = (s \<and> \<not> t)"
| "float_lt (Inf s) (Fin t m e) = s"
| "float_lt (Fin s m e) (Inf t) = (\<not> t)"
| "float_lt (Fin s m e) (Fin t n f) =
     (fsigned s m e * int (fden f) < fsigned t n f * int (fden e))"

fun float_eq :: "pyfloat \<Rightarrow> pyfloat \<Rightarrow> bool" where
  \<comment> \<open>\<open>a == b\<close>\<close>
  "float_eq NaN b = False"
| "float_eq a NaN = False"
| "float_eq (Inf s) (Inf t) = (s = t)"
| "float_eq (Inf s) (Fin t m e) = False"
| "float_eq (Fin s m e) (Inf t) = False"
| "float_eq (Fin s m e) (Fin t n f) =
     (fsigned s m e * int (fden f) = fsigned t n f * int (fden e))"

definition float_gt :: "pyfloat \<Rightarrow> pyfloat \<Rightarrow> bool" where
  "float_gt a b = float_lt b a"

definition float_ge :: "pyfloat \<Rightarrow> pyfloat \<Rightarrow> bool" where
  "float_ge a b = (float_lt b a \<or> float_eq a b)"

fun float_abs :: "pyfloat \<Rightarrow> pyfloat" where
  \<comment> \<open>\<open>abs(a)\<close>\<close>
  "float_abs NaN = NaN"
| "float_abs (Inf s) = Inf False"
| "float_abs (Fin s m e) = Fin False m e"

definition float_zero :: pyfloat where
  "float_zero = Fin False 0 0"

definition float_1e10 :: pyfloat where
  \<comment> \<open>the literal \<open>1e10\<close>\<close>
  "float_1e10 = Fin False 10000000000 0"

definition float_1em4 :: pyfloat where
  \<comment> \<open>the literal \<open>1e-4\<close>: the double nearest to one ten-thousandth\<close>
  "float_1em4 = Fin False 7378697629483821 (- 66)"

section \<open>The Python runtime the calculator calls\<close>

text \<open>
  An exception is known by its message \<open>str(e)\<close> and by whether it is an instance of
  \<open>Exception\<close>, which is what \<open>except Exception\<close> asks. \<open>SystemExit\<close>,
  \<open>KeyboardInterrupt\<close> and \<open>GeneratorExit\<close> are exceptions that are not.
\<close>

datatype pyexc = Exception string | BaseOnly string

text \<open>
  A dictionary of names binds each name to an object; \<open>'o\<close> is the type of the objects'
  identities. Two dictionaries that bind a name to the same object share it: what one of them
  sees changed, the other sees changed. What the objects hold at a moment is the world, of
  type \<open>'w\<close>.
\<close>

type_synonym 'o namespace = "string \<rightharpoonup> 'o"

text \<open>
  The builtins \<open>eval\<close>, \<open>exec\<close> (with \<open>compile\<close>) and \<open>str\<close> are not code of the
  calculator; the model takes them as parameters.
  \<^item> \<open>py_eval src globals locals w\<close> is \<open>eval(src, globals, locals)\<close> in the world \<open>w\<close>:
    the object returned or the exception raised, and with either of them the two
    dictionaries and the world as the evaluation has left them. An evaluation can bind a
    name (\<open>:=\<close>) and change an object (\<open>a.append(2)\<close>) before it returns or raises.
  \<^item> \<open>py_exec src globals w\<close> is \<open>exec(compile(src, '<calculator>', 'exec'), globals,
    local_ns)\<close> on an empty \<open>local_ns\<close>: the bindings left in \<open>local_ns\<close> or the exception
    raised, and with either of them the globals and the world as the execution has left them
    (\<open>exec\<close> puts \<open>__builtins__\<close> into globals that lack it).
  \<^item> \<open>py_value w x\<close> is what \<open>format_result\<close> sees of the object \<open>x\<close> in the world \<open>w\<close>;
    it is \<open>VNone\<close> for the object \<open>None\<close> and for no other.
  \<^item> \<open>py_str v\<close> is \<open>str\<close> of an object seen as \<open>v\<close>: the text or the exception raised.
    Computing it is taken not to change any object.
  \<^item> \<open>empty_dict\<close> is an empty dictionary, the \<open>{}\<close> of \<open>{"__builtins__": {}}\<close>.
  \<^item> \<open>int_max_str_digits\<close> is \<open>sys.get_int_max_str_digits()\<close>: the number of digits above
    which \<open>str\<close> of an \<open>int\<close> raises \<open>ValueError\<close> (4300 unless configured), or 0
    where there is no such limit.
\<close>

record ('o, 'w) python =
  py_eval :: "string \<Rightarrow> 'o namespace \<Rightarrow> 'o namespace \<Rightarrow> 'w
                \<Rightarrow> (pyexc + 'o) \<times> 'o namespace \<times> 'o namespace \<times> 'w"
  py_exec :: "string \<Rightarrow> 'o namespace \<Rightarrow> 'w \<Rightarrow> (pyexc + 'o namespace) \<times> 'o namespace \<times> 'w"
  py_value :: "'w \<Rightarrow> 'o \<Rightarrow> val"
  py_str :: "val \<Rightarrow> pyexc + string"
  empty_dict :: 'o
  int_max_str_digits :: nat

definition no_builtins :: "('o, 'w) python \<Rightarrow> 'o namespace" where
  \<comment> \<open>the globals \<open>{"__builtins__": {}}\<close> of every single-line \<open>eval\<close>\<close>
  "no_builtins py = [''__builtins__'' \<mapsto> empty_dict py]"

definition digits_error :: "nat \<Rightarrow> string" where
  \<comment> \<open>the message of the \<open>ValueError\<close> that \<open>str\<close> of a long \<open>int\<close> raises\<close>
  "digits_error limit =
     ''Exceeds the limit ('' @ str_nat limit
       @ '' digits) for integer string conversion; use sys.set_int_max_str_digits() to increase the limit''"

definition str_int_limited :: "nat \<Rightarrow> int \<Rightarrow> pyexc + string" where
  \<comment> \<open>\<open>str(n)\<close> for an \<open>int\<close> under the limit; the sign does not count as a digit\<close>
  "str_int_limited limit i =
     (if 0 < limit \<and> limit < length (str_nat (nat \<bar>i\<bar>))
      then Inl (Exception (digits_error limit))
      else Inr (str_int i))"

section \<open>format\_result\<close>

definition truncate200 :: "string \<Rightarrow> string" where
  \<comment> \<open>\<open>result_str[:200] + "..."\<close> when the text is longer than 200, else the text\<close>
  "truncate200 result_str =
     (if 200 < length result_str then take 200 result_str @ ''...'' else result_str)"

definition str_truncated :: "('o, 'w) python \<Rightarrow> val \<Rightarrow> pyexc + string" where
  \<comment> \<open>\<open>result_str = str(result)\<close>, which can raise, and then the cut to 200 characters\<close>
  "str_truncated py v =
     (case py_str py v of
        Inl e \<Rightarrow> Inl e
      | Inr result_str \<Rightarrow> Inr (truncate200 result_str))"

definition format_float :: "nat \<Rightarrow> pyfloat \<Rightarrow> string" where
  \<comment> \<open>the \<open>float\<close> branch of \<open>format_result\<close>, the same in both trees\<close>
  "format_float p x =
     (if float_gt (float_abs x) float_1e10
         \<or> (float_lt (float_abs x) float_1em4 \<and> \<not> float_eq x float_zero)
      then format_e p x else format_g p x)"

definition format_complex :: "nat \<Rightarrow> pyfloat \<Rightarrow> pyfloat \<Rightarrow> string" where
  \<comment> \<open>the \<open>complex\<close> branch of \<open>format_result\<close>, the same in both trees; the call
      \<open>self.format_result(result.real)\<close> on a float is \<open>format_float\<close>\<close>
  "format_complex p re im =
     (if float_eq im float_zero then format_float p re
      else if float_eq re float_zero then format_g p im @ ''j''
      else ''('' @ format_g p re @ (if float_ge im float_zero then ''+'' else [])
             @ format_g p im @ ''j)'')"

fun collect_texts :: "(pyexc + string) list \<Rightarrow> pyexc + string list" where
  \<comment> \<open>the generator \<open>self.format_result(x) for x in ...\<close> as \<open>join\<close> consumes it: the texts,
      or the first exception raised\<close>
  "collect_texts [] = Inr []"
| "collect_texts (Inl e # rs) = Inl e"
| "collect_texts (Inr t # rs) =
     (case collect_texts rs of Inl e \<Rightarrow> Inl e | Inr ts \<Rightarrow> Inr (t # ts))"

function format_result_old :: "('o, 'w) python \<Rightarrow> nat \<Rightarrow> val \<Rightarrow> pyexc + string" where
  \<comment> \<open>\<open>format_result\<close> of old/calculator.py; \<open>p\<close> is \<open>self.decimal_precision\<close>. In the
      branch of the objects with \<open>__iter__\<close> the scrutinee is the body of the \<open>try\<close> and the
      second case is the bare \<open>except: return str(result)\<close>; \<open>len\<close> raises on an
      \<open>Unsized\<close> object and the slice \<open>result[:3]\<close> on a \<open>Sized\<close> one.\<close>
  "format_result_old py p VNone = Inr ''None''"
| "format_result_old py p (VBool b) = Inr (str_bool b)"
| "format_result_old py p (VInt i) = str_int_limited (int_max_str_digits py) i"
| "format_result_old py p (VFloat x) = Inr (format_float p x)"
| "format_result_old py p (VComplex re im) = Inr (format_complex p re im)"
| "format_result_old py p (VIter kind name xs) =
     (case (if kind = Unsized then Inl (Exception ''object has no len()'')
            else if 10 < length xs then
              (if kind = Sequence
               then (case collect_texts (map (format_result_old py p) (take 3 xs)) of
                       Inl e \<Rightarrow> Inl e
                     | Inr preview \<Rightarrow>
                         Inr (''['' @ join '', '' preview
                                @ '', ... ('' @ str_nat (length xs) @ '' items)]''))
               else Inl (Exception ''object is not subscriptable''))
            else (case collect_texts (map (format_result_old py p) xs) of
                    Inl e \<Rightarrow> Inl e
                  | Inr texts \<Rightarrow> Inr (''['' @ join '', '' texts @ '']''))) of
        Inr text \<Rightarrow> Inr text
      | Inl e \<Rightarrow> py_str py (VIter kind name xs))"
| "format_result_old py p (VStr s) = Inr (truncate200 s)"
| "format_result_old py p (VOpaque name) = str_truncated py (VOpaque name)"
  by pat_completeness auto

termination
proof (relation "measure (\<lambda>(py, p, v). size v)")
  fix xs :: "val list" and x :: val
  assume "x \<in> set (take 3 xs)"
  then have "x \<in> set xs"
    by (rule in_set_takeD)
  then have "size x \<le> size_list size xs"
    by (rule size_list_estimation') simp
  then show "((py, p, x), (py, p, VIter kind name xs)) \<in> measure (\<lambda>(py, p, v). size v)"
    for py :: "('o, 'w) python" and p :: nat and kind name
    by simp
next
  fix xs :: "val list" and x :: val
  assume "x \<in> set xs"
  then have "size x \<le> size_list size xs"
    by (rule size_list_estimation') simp
  then show "((py, p, x), (py, p, VIter kind name xs)) \<in> measure (\<lambda>(py, p, v). size v)"
    for py :: "('o, 'w) python" and p :: nat and kind name
    by simp
qed simp

fun format_result :: "('o, 'w) python \<Rightarrow> nat \<Rightarrow> val \<Rightarrow> pyexc + string" where
  \<comment> \<open>\<open>format_result\<close> of src/core/calculator.py: no branch for the objects with
      \<open>__iter__\<close>, which reach the last \<open>else\<close>. A SymPy object is a \<open>VOpaque\<close> or a
      \<open>VIter\<close>: its branch and the last one do the same.\<close>
  "format_result py p VNone = Inr ''None''"
| "format_result py p (VBool b) = Inr (str_bool b)"
| "format_result py p (VInt i) = str_int_limited (int_max_str_digits py) i"
| "format_result py p (VFloat x) = Inr (format_float p x)"
| "format_result py p (VComplex re im) = Inr (format_complex p re im)"
| "format_result py p (VIter kind name xs) = str_truncated py (VIter kind name xs)"
| "format_result py p (VStr s) = Inr (truncate200 s)"
| "format_result py p (VOpaque name) = str_truncated py (VOpaque name)"

section \<open>The calculator's state\<close>

record ('o, 'w) calculator =
  base_namespace :: "'o namespace"
  namespace :: "'o namespace"
  variables :: "'o namespace"
  line_results :: "nat \<rightharpoonup> string"
  decimal_precision :: nat
  history :: "(string \<times> string) list"
  objects :: 'w

text \<open>
  \<open>history\<close> is what \<open>self.history_widget.add_calculation\<close> has been given, oldest first.
  \<open>objects\<close> is the world: what the objects bound in the three dictionaries hold.
\<close>

definition comparison_ops :: "string list" where
  "comparison_ops = [''=='', ''!='', ''<='', ''>='']"

definition handle_exception :: "nat \<Rightarrow> pyexc option \<times> ('o, 'w) calculator
    \<Rightarrow> pyexc + ('o, 'w) calculator" where
  \<comment> \<open>the clause \<open>except Exception as e: self.line_results[i] = f"Error: {str(e)}"\<close> of both
      trees, applied to what the body of the \<open>try\<close> has raised, if anything, and to the state
      it has reached; an exception that is not an \<open>Exception\<close> leaves the method\<close>
  "handle_exception i r =
     (case r of
        (None, s') \<Rightarrow> Inr s'
      | (Some (Exception msg), s') \<Rightarrow>
          Inr (s'\<lparr>line_results := (line_results s')(i \<mapsto> ''Error: '' @ msg)\<rparr>)
      | (Some (BaseOnly msg), s') \<Rightarrow> Inl (BaseOnly msg))"

section \<open>The current tree: src/core/calculator.py\<close>

definition is_assignment :: "string \<Rightarrow> bool" where
  \<comment> \<open>\<open>'=' in line and not any(op in line for op in ['==', '!=', '<=', '>='])\<close>\<close>
  "is_assignment line =
     (contains line ''='' \<and> \<not> list_ex (\<lambda>op. contains line op) comparison_ops)"

definition eval_line :: "('o, 'w) python \<Rightarrow> nat \<Rightarrow> string \<Rightarrow> ('o, 'w) calculator
    \<Rightarrow> pyexc option \<times> ('o, 'w) calculator" where
  \<comment> \<open>the body of the \<open>try\<close> in \<open>recalculate_changed_lines\<close>, statement by statement: the
      exception raised, if any, and the state reached. \<open>self.namespace\<close> is the \<open>locals\<close>
      of \<open>eval\<close>, so it is what \<open>eval\<close> has left of it.\<close>
  "eval_line py i line s =
     (if is_assignment line then
        (case split_once CHR ''='' line of
           [var_name, expression] \<Rightarrow>
             (case py_eval py (strip expression) (no_builtins py) (namespace s) (objects s) of
                (Inl e, g, l, w) \<Rightarrow> (Some e, s\<lparr>namespace := l, objects := w\<rparr>)
              | (Inr result, g, l, w) \<Rightarrow>
                  (let s1 = s\<lparr>variables := (variables s)(strip var_name \<mapsto> result),
                             namespace := l(strip var_name \<mapsto> result),
                             objects := w\<rparr>
                   in case format_result py (decimal_precision s) (py_value py w result) of
                        Inl e \<Rightarrow> (Some e, s1)
                      | Inr text \<Rightarrow>
                          (None, s1\<lparr>line_results := (line_results s)(i \<mapsto>
                                      strip var_name @ '' = '' @ text)\<rparr>)))
         | _ \<Rightarrow> (Some (Exception ''not enough values to unpack (expected 2, got 1)''), s))
      else
        (case py_eval py line (no_builtins py) (namespace s) (objects s) of
           (Inl e, g, l, w) \<Rightarrow> (Some e, s\<lparr>namespace := l, objects := w\<rparr>)
         | (Inr result, g, l, w) \<Rightarrow>
             (let s1 = s\<lparr>namespace := l, objects := w\<rparr>
              in if py_value py w result \<noteq> VNone
                 then (case format_result py (decimal_precision s) (py_value py w result) of
                         Inl e \<Rightarrow> (Some e, s1)
                       | Inr text \<Rightarrow>
                           (None, s1\<lparr>line_results := (line_results s)(i \<mapsto> text)\<rparr>))
                 else (None, s1))))"

definition process_line :: "('o, 'w) python \<Rightarrow> nat \<Rightarrow> string \<Rightarrow> ('o, 'w) calculator
    \<Rightarrow> pyexc + ('o, 'w) calculator" where
  \<comment> \<open>one turn of the loop \<open>for i, line in enumerate(lines)\<close>\<close>
  "process_line py i line s =
     (if strip line = [] \<or> startswith (strip line) ''#'' then Inr s
      else handle_exception i (eval_line py i line s))"

fun process_lines :: "('o, 'w) python \<Rightarrow> nat \<Rightarrow> string list \<Rightarrow> ('o, 'w) calculator
    \<Rightarrow> pyexc + ('o, 'w) calculator" where
  "process_lines py i [] s = Inr s"
| "process_lines py i (line # rest) s =
     (case process_line py i line s of
        Inl e \<Rightarrow> Inl e
      | Inr s' \<Rightarrow> process_lines py (Suc i) rest s')"

definition reset :: "('o, 'w) calculator \<Rightarrow> ('o, 'w) calculator" where
  \<comment> \<open>\<open>self.namespace = self.base_namespace.copy()\<close>, \<open>self.variables.clear()\<close>,
      \<open>self.line_results.clear()\<close>; the copy is shallow, the objects stay as they are\<close>
  "reset s = s\<lparr>namespace := base_namespace s, variables := Map.empty,
               line_results := Map.empty\<rparr>"

definition recalculate_changed_lines :: "('o, 'w) python \<Rightarrow> string \<Rightarrow> ('o, 'w) calculator
    \<Rightarrow> pyexc + ('o, 'w) calculator" where
  \<comment> \<open>\<open>recalculate_changed_lines(editor)\<close>, on the editor's text\<close>
  "recalculate_changed_lines py current_text s =
     process_lines py 0 (split_on newline current_text) (reset s)"

definition recalculate_all :: "('o, 'w) python \<Rightarrow> string option \<Rightarrow> ('o, 'w) calculator
    \<Rightarrow> pyexc + ('o, 'w) calculator" where
  \<comment> \<open>\<open>recalculate_all()\<close>: the argument is the text of the current editor, \<open>None\<close> when
      \<open>get_current_editor()\<close> finds no editor\<close>
  "recalculate_all py editor s =
     (case editor of None \<Rightarrow> Inr s | Some current_text \<Rightarrow> recalculate_changed_lines py current_text s)"

definition delete_variable :: "('o, 'w) python \<Rightarrow> string option \<Rightarrow> string
    \<Rightarrow> ('o, 'w) calculator \<Rightarrow> pyexc + ('o, 'w) calculator" where
  \<comment> \<open>\<open>delete_variable(var_name)\<close>\<close>
  "delete_variable py editor var_name s =
     (if var_name \<in> dom (variables s)
      then recalculate_all py editor
             (s\<lparr>variables := (variables s)(var_name := None),
                namespace := (namespace s)(var_name := None)\<rparr>)
      else Inr s)"

section \<open>The old tree: old/calculator.py\<close>

subsection \<open>process\_multiline\_statements\<close>

record item =
  line_num :: nat
  code :: string
  is_multiline :: bool

record segmenter =
  processed :: "item list"
  current_block :: string
  block_start :: nat
  indent_level :: nat

definition block_keywords :: "string list" where
  "block_keywords = [''def '', ''class '', ''if '', ''for '', ''while '', ''try:'', ''except'',
     ''finally:'', ''with '', ''elif '', ''else:'']"

definition tab :: char where
  "tab = CHR 0x09"

definition close_block :: "segmenter \<Rightarrow> segmenter" where
  \<comment> \<open>append the pending block, stripped, as one multi-line item and empty the buffer\<close>
  "close_block st =
     st\<lparr>processed := processed st
            @ [\<lparr>line_num = block_start st, code = strip (current_block st), is_multiline = True\<rparr>],
        current_block := []\<rparr>"

definition add_single :: "nat \<Rightarrow> string \<Rightarrow> segmenter \<Rightarrow> segmenter" where
  "add_single i line st =
     st\<lparr>processed := processed st @ [\<lparr>line_num = i, code = line, is_multiline = False\<rparr>]\<rparr>"

definition segment_line :: "nat \<Rightarrow> string \<Rightarrow> segmenter \<Rightarrow> segmenter" where
  \<comment> \<open>one turn of the loop of \<open>process_multiline_statements\<close>; \<open>max(0, indent_level - 1)\<close>
      is the subtraction of \<open>nat\<close>\<close>
  "segment_line i line st =
     (let stripped = strip line in
      if stripped = [] \<or> startswith stripped ''#'' then
        (if current_block st \<noteq> []
         then st\<lparr>current_block := current_block st @ line @ [newline]\<rparr>
         else add_single i line st)
      else if endswith stripped '':'' \<or> list_ex (startswith stripped) block_keywords
              \<or> 0 < indent_level st then
        (let st1 = (if current_block st = [] then st\<lparr>block_start := i\<rparr> else st);
             st2 = st1\<lparr>current_block := current_block st1 @ line @ [newline]\<rparr>;
             st3 = (if endswith stripped '':'' then st2\<lparr>indent_level := indent_level st2 + 1\<rparr>
                    else if startswith line ''    '' \<or> startswith line [tab] then st2
                    else st2\<lparr>indent_level := indent_level st2 - 1\<rparr>)
         in if indent_level st3 = 0 \<and> \<not> endswith stripped '':'' then close_block st3 else st3)
      else add_single i line (if current_block st \<noteq> [] then close_block st else st))"

fun segment_lines :: "nat \<Rightarrow> string list \<Rightarrow> segmenter \<Rightarrow> segmenter" where
  "segment_lines i [] st = st"
| "segment_lines i (line # rest) st = segment_lines (Suc i) rest (segment_line i line st)"

definition process_multiline_statements :: "string list \<Rightarrow> item list" where
  "process_multiline_statements lines =
     (let st = segment_lines 0 lines
                 \<lparr>processed = [], current_block = [], block_start = 0, indent_level = 0\<rparr>
      in processed (if current_block st \<noteq> [] then close_block st else st))"

subsection \<open>execute\_multiline\_code\<close>

definition statement_keywords :: "string list" where
  "statement_keywords = [''def '', ''class '', ''if '', ''for '', ''while '', ''try:'',
     ''except'', ''finally:'', ''with '', ''elif '', ''else:'', ''return '', ''yield '',
     ''import '', ''from '']"

definition execute_multiline_code :: "('o, 'w) python \<Rightarrow> string \<Rightarrow> ('o, 'w) calculator
    \<Rightarrow> (pyexc + 'o option) \<times> ('o, 'w) calculator" where
  \<comment> \<open>the exception raised or the object returned (\<open>None\<close> where the method returns its
      \<open>None\<close> without an \<open>eval\<close>), and the state reached. \<open>self.namespace\<close> is the
      \<open>globals\<close> of \<open>exec\<close> and of \<open>eval\<close>, so it is what they have left of it;
      \<open>self.variables.update(local_ns)\<close> comes before the \<open>eval\<close>, whose changes to
      \<open>local_ns\<close> are lost; the bare \<open>except: pass\<close> around the \<open>eval\<close> swallows every
      exception.\<close>
  "execute_multiline_code py code_block s =
     (case py_exec py code_block (namespace s) (objects s) of
        (Inl e, g, w) \<Rightarrow> (Inl e, s\<lparr>namespace := g, objects := w\<rparr>)
      | (Inr local_ns, g, w) \<Rightarrow>
          (let s1 = s\<lparr>namespace := g, objects := w, variables := variables s ++ local_ns\<rparr>;
               last_line = strip (last (split_on newline (strip code_block)))
           in if last_line \<noteq> [] \<and> \<not> list_ex (startswith last_line) statement_keywords
              then (case py_eval py last_line g local_ns w of
                      (Inr result, g', l', w') \<Rightarrow>
                        (Inr (Some result), s1\<lparr>namespace := g', objects := w'\<rparr>)
                    | (Inl e, g', l', w') \<Rightarrow>
                        (Inr None, s1\<lparr>namespace := g', objects := w'\<rparr>))
              else (Inr None, s1)))"

subsection \<open>recalculate\_changed\_lines\<close>

definition first_field :: "char \<Rightarrow> string \<Rightarrow> string" where
  \<comment> \<open>\<open>s.split(c)[0]\<close>\<close>
  "first_field c s = (case split_on c s of [] \<Rightarrow> [] | w # ws \<Rightarrow> w)"

definition is_assignment_old :: "string \<Rightarrow> bool" where
  \<comment> \<open>\<open>'=' in code_block and not any(op in code_block.split('=')[0] for op in
      ['==', '!=', '<=', '>='])\<close>\<close>
  "is_assignment_old code_block =
     (contains code_block ''=''
      \<and> \<not> list_ex (\<lambda>op. contains (first_field CHR ''='' code_block) op) comparison_ops)"

definition show_result :: "('o, 'w) python \<Rightarrow> item \<Rightarrow> string \<Rightarrow> 'o \<Rightarrow> ('o, 'w) calculator
    \<Rightarrow> pyexc option \<times> ('o, 'w) calculator" where
  \<comment> \<open>\<open>formatted_result = self.format_result(result)\<close>, then the entry of the line, made of
      \<open>prefix\<close> and the text, and the entry of the history\<close>
  "show_result py it prefix result s =
     (case format_result_old py (decimal_precision s) (py_value py (objects s) result) of
        Inl e \<Rightarrow> (Some e, s)
      | Inr formatted_result \<Rightarrow>
          (None, s\<lparr>line_results := (line_results s)(line_num it \<mapsto> prefix @ formatted_result),
                   history := history s @ [(code it, formatted_result)]\<rparr>))"

definition eval_item :: "('o, 'w) python \<Rightarrow> item \<Rightarrow> ('o, 'w) calculator
    \<Rightarrow> pyexc option \<times> ('o, 'w) calculator" where
  \<comment> \<open>the body of the \<open>try\<close> after \<open>self.namespace.update(self.variables)\<close>, statement by
      statement: the exception raised, if any, and the state reached\<close>
  "eval_item py it s =
     (if is_multiline it then
        (case execute_multiline_code py (code it) s of
           (Inl e, s') \<Rightarrow> (Some e, s')
         | (Inr r, s') \<Rightarrow>
             (case r of
                Some result \<Rightarrow>
                  if py_value py (objects s') result \<noteq> VNone
                  then show_result py it [] result s'
                  else (None, s'\<lparr>line_results := (line_results s')(line_num it \<mapsto> ''executed'')\<rparr>)
              | None \<Rightarrow>
                  (None, s'\<lparr>line_results := (line_results s')(line_num it \<mapsto> ''executed'')\<rparr>)))
      else if is_assignment_old (code it) then
        (case split_once CHR ''='' (code it) of
           [before, var_expression] \<Rightarrow>
             (let var_name = strip (first_field CHR ''='' (code it)) in
              case py_eval py (strip var_expression) (no_builtins py) (namespace s) (objects s) of
                (Inl e, g, l, w) \<Rightarrow> (Some e, s\<lparr>namespace := l, objects := w\<rparr>)
              | (Inr result, g, l, w) \<Rightarrow>
                  show_result py it (var_name @ '' = '') result
                    (s\<lparr>variables := (variables s)(var_name \<mapsto> result),
                       namespace := l(var_name \<mapsto> result),
                       objects := w\<rparr>))
         | _ \<Rightarrow> (Some (Exception ''list index out of range''), s))
      else
        (case py_eval py (code it) (no_builtins py) (namespace s) (objects s) of
           (Inl e, g, l, w) \<Rightarrow> (Some e, s\<lparr>namespace := l, objects := w\<rparr>)
         | (Inr result, g, l, w) \<Rightarrow>
             show_result py it [] result (s\<lparr>namespace := l, objects := w\<rparr>)))"

definition process_item :: "('o, 'w) python \<Rightarrow> item \<Rightarrow> ('o, 'w) calculator
    \<Rightarrow> pyexc + ('o, 'w) calculator" where
  \<comment> \<open>one turn of the loop \<open>for item in processed_lines\<close>\<close>
  "process_item py it s =
     (if strip (code it) = [] \<or> startswith (strip (code it)) ''#'' then Inr s
      else handle_exception (line_num it)
             (eval_item py it (s\<lparr>namespace := namespace s ++ variables s\<rparr>)))"

fun process_items :: "('o, 'w) python \<Rightarrow> item list \<Rightarrow> ('o, 'w) calculator
    \<Rightarrow> pyexc + ('o, 'w) calculator" where
  "process_items py [] s = Inr s"
| "process_items py (it # rest) s =
     (case process_item py it s of
        Inl e \<Rightarrow> Inl e
      | Inr s' \<Rightarrow> process_items py rest s')"

definition recalculate_changed_lines_old :: "('o, 'w) python \<Rightarrow> string \<Rightarrow> ('o, 'w) calculator
    \<Rightarrow> pyexc + ('o, 'w) calculator" where
  "recalculate_changed_lines_old py current_text s =
     process_items py (process_multiline_statements (split_on newline current_text)) (reset s)"

definition recalculate_all_old :: "('o, 'w) python \<Rightarrow> string option \<Rightarrow> ('o, 'w) calculator
    \<Rightarrow> pyexc + ('o, 'w) calculator" where
  "recalculate_all_old py editor s =
     (case editor of None \<Rightarrow> Inr s
      | Some current_text \<Rightarrow> recalculate_changed_lines_old py current_text s)"

definition delete_variable_old :: "('o, 'w) python \<Rightarrow> string option \<Rightarrow> string
    \<Rightarrow> ('o, 'w) calculator \<Rightarrow> pyexc + ('o, 'w) calculator" where
  "delete_variable_old py editor var_name s =
     (if var_name \<in> dom (variables s)
      then recalculate_all_old py editor
             (s\<lparr>variables := (variables s)(var_name := None),
                namespace := (namespace s)(var_name := None)\<rparr>)
      else Inr s)"

section \<open>A small runtime for concrete runs\<close>

text \<open>
  The concrete runs below need one runtime to instantiate the parameters with. In this one an
  object is the value it shows and nothing changes an object, so the world is the unit. It
  answers as Python 3.11 does on the texts it knows: sums, differences and products of integer
  literals and names written with blanks around the operators, the name \<open>None\<close>, the power
  \<open>10**5000\<close>, a call \<open>f(k)\<close> of the doubling function of the specification's example on a
  literal, the comparison \<open>(y := 5) >= nope\<close> where \<open>nope\<close> is not bound, the call
  \<open>statistics.sys.exit()\<close>, and three blocks. Every other text is reported as a syntax
  error. Its \<open>str\<close> is that of lists and tuples of integers, booleans and \<open>None\<close>, and of
  objects known by a name.
\<close>

definition is_number :: "string \<Rightarrow> bool" where
  "is_number w = (w \<noteq> [] \<and> list_all (\<lambda>c. c \<in> set ''0123456789'') w)"

definition is_name :: "string \<Rightarrow> bool" where
  "is_name w =
     (w \<noteq> [] \<and> hd w \<in> set ''abcdefghijklmnopqrstuvwxyzABCDEFGHIJKLMNOPQRSTUVWXYZ_''
      \<and> list_all (\<lambda>c. c \<in> set ''abcdefghijklmnopqrstuvwxyzABCDEFGHIJKLMNOPQRSTUVWXYZ_0123456789'') w)"

definition digit_value :: "char \<Rightarrow> nat" where
  "digit_value c = length (takeWhile (\<lambda>d. d \<noteq> c) ''0123456789'')"

definition parse_nat :: "string \<Rightarrow> nat" where
  "parse_nat w = foldl (\<lambda>n c. 10 * n + digit_value c) 0 w"

definition call_parts :: "string \<Rightarrow> (string \<times> string) option" where
  \<comment> \<open>\<open>name(digits)\<close> split into the name and the digits\<close>
  "call_parts w =
     (let name = takeWhile (\<lambda>c. c \<noteq> CHR ''('') w;
          rest = dropWhile (\<lambda>c. c \<noteq> CHR ''('') w
      in if is_name name \<and> 2 \<le> length rest \<and> last rest = CHR '')''
            \<and> is_number (butlast (tl rest))
         then Some (name, butlast (tl rest)) else None)"

definition big_power :: string where
  "big_power = ''10**5000''"

definition big_nat :: nat where
  \<comment> \<open>the value of \<open>10**5000\<close>, a number of 5001 digits\<close>
  "big_nat = 10 ^ 5000"

definition is_atom :: "string \<Rightarrow> bool" where
  "is_atom w = (is_number w \<or> is_name w \<or> call_parts w \<noteq> None \<or> w = big_power)"

fun syntax_ok :: "string list \<Rightarrow> bool" where
  \<comment> \<open>atoms and the operators \<open>+\<close>, \<open>-\<close>, \<open>*\<close> in turn, an atom first and last\<close>
  "syntax_ok [] = False"
| "syntax_ok [w] = is_atom w"
| "syntax_ok (w # op # ws) = (is_atom w \<and> op \<in> set [''+'', ''-'', ''*''] \<and> syntax_ok ws)"

definition quote :: char where
  "quote = CHR 0x27"

definition name_error :: "string \<Rightarrow> string" where
  \<comment> \<open>the message of the \<open>NameError\<close> for a name\<close>
  "name_error w = ''name '' @ [quote] @ w @ [quote] @ '' is not defined''"

definition syntax_error :: string where
  \<comment> \<open>the message of the \<open>SyntaxError\<close> of \<open>eval\<close>\<close>
  "syntax_error = ''invalid syntax (<string>, line 1)''"

definition double_function :: val where
  \<comment> \<open>the function object that \<open>def f(n): return n * 2\<close> binds\<close>
  "double_function = VOpaque ''<function f>''"

definition demo_atom :: "val namespace \<Rightarrow> string \<Rightarrow> pyexc + val" where
  "demo_atom env w =
     (if is_number w then Inr (VInt (int (parse_nat w)))
      else if w = big_power then Inr (VInt (int big_nat))
      else if w = ''None'' then Inr VNone
      else if is_name w then
        (case env w of
           Some v \<Rightarrow> Inr v
         | None \<Rightarrow> Inl (Exception (name_error w)))
      else (case call_parts w of
              None \<Rightarrow> Inl (Exception syntax_error)
            | Some (name, arg) \<Rightarrow>
                (case env name of
                   None \<Rightarrow> Inl (Exception (name_error name))
                 | Some v \<Rightarrow>
                     if v = double_function then Inr (VInt (int (parse_nat arg) * 2))
                     else Inl (Exception ''object is not callable''))))"

definition demo_int :: "val namespace \<Rightarrow> string \<Rightarrow> pyexc + int" where
  \<comment> \<open>an operand of an arithmetic operator\<close>
  "demo_int env w =
     (case demo_atom env w of
        Inl e \<Rightarrow> Inl e
      | Inr (VInt n) \<Rightarrow> Inr n
      | Inr v \<Rightarrow> Inl (Exception ''unsupported operand type(s)''))"

fun demo_terms :: "val namespace \<Rightarrow> int \<Rightarrow> int \<Rightarrow> string list \<Rightarrow> pyexc + val" where
  \<comment> \<open>the sum of the finished terms, the product being built, the words left\<close>
  "demo_terms env acc pr (op # w # ws) =
     (case demo_int env w of
        Inl e \<Rightarrow> Inl e
      | Inr n \<Rightarrow>
          if op = ''*'' then demo_terms env acc (pr * n) ws
          else if op = ''-'' then demo_terms env (acc + pr) (- n) ws
          else demo_terms env (acc + pr) n ws)"
| "demo_terms env acc pr ws = Inr (VInt (acc + pr))"

definition demo_value :: "string \<Rightarrow> val namespace \<Rightarrow> val namespace \<Rightarrow> pyexc + val" where
  \<comment> \<open>the texts whose evaluation binds nothing; names are looked up in the locals, then in
      the globals\<close>
  "demo_value src globals locals =
     (let env = globals ++ locals;
          ws = filter (\<lambda>w. w \<noteq> []) (split_on CHR '' '' src)
      in if src = ''statistics.sys.exit()'' \<and> env ''statistics'' \<noteq> None then Inl (BaseOnly [])
         else if \<not> syntax_ok ws then Inl (Exception syntax_error)
         else (case ws of
                 [w] \<Rightarrow> demo_atom env w
               | w # rest \<Rightarrow>
                   (case demo_int env w of Inl e \<Rightarrow> Inl e | Inr n \<Rightarrow> demo_terms env 0 n rest)
               | [] \<Rightarrow> Inl (Exception syntax_error)))"

definition walrus_line :: string where
  \<comment> \<open>a comparison that binds \<open>y\<close> before it looks up \<open>nope\<close>\<close>
  "walrus_line = ''(y := 5) >= nope''"

definition demo_eval :: "string \<Rightarrow> val namespace \<Rightarrow> val namespace \<Rightarrow> unit
    \<Rightarrow> (pyexc + val) \<times> val namespace \<times> val namespace \<times> unit" where
  "demo_eval src globals locals w =
     (if src = walrus_line \<and> (globals ++ locals) ''nope'' = None
      then (Inl (Exception (name_error ''nope'')), globals, locals(''y'' \<mapsto> VInt 5), w)
      else (demo_value src globals locals, globals, locals, w))"

definition def_block :: string where
  \<comment> \<open>the block of the specification's example\<close>
  "def_block = ''def f(n):'' @ [newline] @ ''    return n * 2'' @ [newline] @ ''f(3)''"

definition loop_block :: string where
  "loop_block = ''for i in range(3):'' @ [newline] @ ''    x = i''"

definition exit_block :: string where
  "exit_block = ''if True:'' @ [newline] @ ''    raise SystemExit''"

definition with_builtins :: "val namespace \<Rightarrow> val namespace" where
  \<comment> \<open>what \<open>exec\<close> does to its globals before it runs the code\<close>
  "with_builtins globals =
     (if globals ''__builtins__'' = None
      then globals(''__builtins__'' \<mapsto> VOpaque ''<builtins>'') else globals)"

definition demo_exec :: "string \<Rightarrow> val namespace \<Rightarrow> unit
    \<Rightarrow> (pyexc + val namespace) \<times> val namespace \<times> unit" where
  \<comment> \<open>a text that does not compile leaves the globals as they are\<close>
  "demo_exec src globals w =
     (if src = def_block then (Inr [''f'' \<mapsto> double_function], with_builtins globals, w)
      else if src = loop_block
        then (Inr [''i'' \<mapsto> VInt 2, ''x'' \<mapsto> VInt 2], with_builtins globals, w)
      else if src = exit_block then (Inl (BaseOnly []), with_builtins globals, w)
      else (Inl (Exception ''invalid syntax (<calculator>, line 1)''), globals, w))"

definition unprintable :: val where
  \<comment> \<open>an object of a class whose \<open>__str__\<close> raises \<open>ValueError('no text')\<close> and whose
      \<open>__repr__\<close> returns \<open><U>\<close>\<close>
  "unprintable = VOpaque ''<U>''"

fun demo_repr :: "val \<Rightarrow> pyexc + string" where
  \<comment> \<open>\<open>repr\<close> of an element of a list or of a tuple: an integer, a boolean, \<open>None\<close> or an
      object known by its name\<close>
  "demo_repr (VInt i) = str_int_limited 4300 i"
| "demo_repr (VBool b) = Inr (str_bool b)"
| "demo_repr (VOpaque name) = Inr name"
| "demo_repr v = Inr ''None''"

fun demo_str :: "val \<Rightarrow> pyexc + string" where
  \<comment> \<open>\<open>str\<close> of a list, of a tuple and of an object known by its name\<close>
  "demo_str (VIter kind name xs) =
     (case collect_texts (map demo_repr xs) of
        Inl e \<Rightarrow> Inl e
      | Inr texts \<Rightarrow>
          if name = ''tuple''
          then Inr (''('' @ join '', '' texts @ (if length xs = 1 then '','' else []) @ '')'')
          else Inr (''['' @ join '', '' texts @ '']''))"
| "demo_str (VOpaque name) =
     (if VOpaque name = unprintable then Inl (Exception ''no text'') else Inr name)"
| "demo_str v = Inr ''None''"

definition demo_py :: "(val, unit) python" where
  "demo_py = \<lparr>py_eval = demo_eval, py_exec = demo_exec, py_value = (\<lambda>w x. x),
              py_str = demo_str, empty_dict = VOpaque ''{}'', int_max_str_digits = 4300\<rparr>"

definition fresh :: "(val, unit) calculator" where
  \<comment> \<open>a calculator just started, with the module \<open>statistics\<close> and \<open>abs\<close> in its base namespace\<close>
  "fresh = \<lparr>base_namespace = [''statistics'' \<mapsto> VOpaque ''<module statistics>'',
                               ''abs'' \<mapsto> VOpaque ''<built-in function abs>''],
            namespace = [''statistics'' \<mapsto> VOpaque ''<module statistics>'',
                         ''abs'' \<mapsto> VOpaque ''<built-in function abs>''],
            variables = Map.empty, line_results = Map.empty, decimal_precision = 6,
            history = [], objects = ()\<rparr>"

section \<open>The documents of the specification's examples\<close>

definition xy_document :: string where
  \<comment> \<open>the three lines \<open>x = 2\<close>, \<open>y = x + 3\<close>, \<open>y\<close>\<close>
  "xy_document = ''x = 2'' @ [newline] @ ''y = x + 3'' @ [newline] @ ''y''"

definition float_1e12 :: pyfloat where
  \<comment> \<open>the literal \<open>1e12\<close>\<close>
  "float_1e12 = Fin False 1000000000000 0"

definition float_third :: pyfloat where
  \<comment> \<open>the double that \<open>1.0/3.0\<close> gives: \<open>6004799503160661 / 2 ^ 54\<close>\<close>
  "float_third = Fin False 6004799503160661 (- 54)"

definition float_of_nat :: "nat \<Rightarrow> pyfloat" where
  \<comment> \<open>the float of a small natural number\<close>
  "float_of_nat n = Fin False n 0"

section \<open>The claims' wording, for comparison with the code\<close>

definition spec_format_float :: "nat \<Rightarrow> pyfloat \<Rightarrow> string" where
  \<comment> \<open>the float rule as claim C5 words it: scientific notation at \<open>precision\<close> significant
      digits, one before the point and \<open>precision - 1\<close> after it, when \<open>|v| > 1e10\<close> or
      \<open>0 < |v| < 1e-4\<close>; general notation at \<open>precision\<close> significant digits otherwise\<close>
  "spec_format_float p x =
     (if float_gt (float_abs x) float_1e10
         \<or> (float_lt float_zero (float_abs x) \<and> float_lt (float_abs x) float_1em4)
      then format_e (p - 1) x else format_g p x)"

definition spec_format_complex :: "(val \<Rightarrow> pyexc + string) \<Rightarrow> nat \<Rightarrow> pyfloat \<Rightarrow> pyfloat
    \<Rightarrow> pyexc + string" where
  \<comment> \<open>the complex rule as claim C6 words it, \<open>fmt\<close> being the formatter called recursively\<close>
  "spec_format_complex fmt p re im =
     (if float_eq im float_zero then fmt (VFloat re)
      else if float_eq re float_zero
        then (case fmt (VFloat im) of Inl e \<Rightarrow> Inl e | Inr text \<Rightarrow> Inr (text @ ''j''))
      else Inr (''('' @ format_g p re @ (if float_ge im float_zero then ''+'' else [])
                  @ format_g p im @ ''j)''))"

definition spec_format_sequence :: "(val \<Rightarrow> pyexc + string) \<Rightarrow> val list \<Rightarrow> pyexc + string" where
  \<comment> \<open>the sequence rule as claim C7 words it, \<open>fmt\<close> being the formatter called recursively\<close>
  "spec_format_sequence fmt xs =
     (if 10 < length xs
      then (case collect_texts (map fmt (take 3 xs)) of
              Inl e \<Rightarrow> Inl e
            | Inr texts \<Rightarrow>
                Inr (join '', '' texts @ '', ... ('' @ str_nat (length xs) @ '' items)''))
      else (case collect_texts (map fmt xs) of
              Inl e \<Rightarrow> Inl e
            | Inr texts \<Rightarrow> Inr (''['' @ join '', '' texts @ '']'')))"

definition eleven_ints :: "val list" where
  "eleven_ints = map VInt [0, 1, 2, 3, 4, 5, 6, 7, 8, 9, 10]"

definition forget_history :: "('o, 'w) calculator \<Rightarrow> ('o, 'w) calculator" where
  \<comment> \<open>the state without what the history widget has been given\<close>
  "forget_history s = s\<lparr>history := []\<rparr>"

definition sum_document :: string where
  \<comment> \<open>two independent arithmetic lines\<close>
  "sum_document = ''1 + 2'' @ [newline] @ ''3 * 4 - 5''"




definition x_document :: string where
  \<comment> \<open>the two lines \<open>x = 2\<close>, \<open>x + 1\<close>\<close>
  "x_document = ''x = 2'' @ [newline] @ ''x + 1''"






section \<open>Unfolding rules for concrete runs\<close>

lemmas str_defs = strip_def startswith_def endswith_def isspace_def join_def

lemmas num_defs = str_int_def str_nat.simps digit_char_def

lemmas demo_defs = demo_py_def demo_eval_def demo_value_def demo_atom_def demo_int_def
  is_number_def is_name_def digit_value_def parse_nat_def call_parts_def is_atom_def quote_def
  double_function_def demo_exec_def def_block_def loop_block_def exit_block_def
  walrus_line_def big_power_def name_error_def syntax_error_def with_builtins_def

lemmas cur_defs = recalculate_changed_lines_def reset_def process_line_def eval_line_def
  handle_exception_def is_assignment_def comparison_ops_def no_builtins_def

lemmas old_defs = recalculate_changed_lines_old_def reset_def process_item_def eval_item_def
  show_result_def handle_exception_def is_assignment_old_def first_field_def
  comparison_ops_def no_builtins_def execute_multiline_code_def statement_keywords_def

lemmas seg_defs = process_multiline_statements_def segment_line_def close_block_def
  add_single_def block_keywords_def tab_def

lemmas fmt_defs = format_float_def format_complex_def sig_digits_def dec_exp_def ge_pow10_def
  scaled_round_def round_half_even_def fnum_def fden_def exp_text_def sign_text_def
  with_point_def strip_zeros_def float_gt_def float_ge_def fsigned_def float_zero_def
  float_1e10_def float_1em4_def truncate200_def float_1e12_def float_third_def float_of_nat_def
  format_e.simps format_g.simps

section \<open>Substrings and splitting\<close>











section \<open>Which lines are assignments\<close>






section \<open>The current tree: one line, one pass\<close>




lemma eval_line_frame:
  assumes "eval_line py i line s = (r, s')"
  shows "base_namespace s' = base_namespace s"
    and "decimal_precision s' = decimal_precision s"
    and "history s' = history s"
    and "j \<noteq> i \<Longrightarrow> line_results s' j = line_results s j"
    and "r \<noteq> None \<Longrightarrow> line_results s' = line_results s"
  using assms
  by (auto simp: eval_line_def Let_def
      split: if_splits sum.splits prod.splits list.splits)

lemma handle_exception_frame:
  assumes "handle_exception i (r, s1) = Inr s'"
  shows "base_namespace s' = base_namespace s1"
    and "decimal_precision s' = decimal_precision s1"
    and "history s' = history s1"
    and "namespace s' = namespace s1"
    and "variables s' = variables s1"
    and "objects s' = objects s1"
    and "j \<noteq> i \<Longrightarrow> line_results s' j = line_results s1 j"
  using assms
  by (auto simp: handle_exception_def split: option.splits pyexc.splits)


lemma process_line_frame:
  assumes "process_line py i line s = Inr s'"
  shows "base_namespace s' = base_namespace s"
    and "decimal_precision s' = decimal_precision s"
    and "history s' = history s"
    and "j \<noteq> i \<Longrightarrow> line_results s' j = line_results s j"
proof -
  have "s' = s \<or> (\<exists>r s1. eval_line py i line s = (r, s1) \<and> handle_exception i (r, s1) = Inr s')"
  proof (cases "strip line = [] \<or> startswith (strip line) ''#''")
    case True
    with assms have "Inr s = (Inr s' :: pyexc + ('a, 'b) calculator)"
      by (simp only: process_line_def if_True)
    then show ?thesis by simp
  next
    case False
    with assms have "handle_exception i (eval_line py i line s) = Inr s'"
      by (simp only: process_line_def if_False)
    then show ?thesis by (cases "eval_line py i line s") simp
  qed
  then consider "s' = s"
    | r s1 where "eval_line py i line s = (r, s1)" and "handle_exception i (r, s1) = Inr s'"
    by blast
  then have "base_namespace s' = base_namespace s \<and> decimal_precision s' = decimal_precision s
      \<and> history s' = history s \<and> (j \<noteq> i \<longrightarrow> line_results s' j = line_results s j)"
  proof cases
    case 1
    then show ?thesis by simp
  next
    case 2
    from eval_line_frame(1-4)[OF 2(1)] handle_exception_frame(1,2,3,7)[OF 2(2)]
    show ?thesis by simp
  qed
  then show "base_namespace s' = base_namespace s"
    and "decimal_precision s' = decimal_precision s"
    and "history s' = history s"
    and "j \<noteq> i \<Longrightarrow> line_results s' j = line_results s j"
    by simp_all
qed

lemma process_lines_frame:
  assumes "process_lines py i ls s = Inr s'"
  shows "base_namespace s' = base_namespace s"
    and "decimal_precision s' = decimal_precision s"
    and "history s' = history s"
    and "j < i \<or> i + length ls \<le> j \<Longrightarrow> line_results s' j = line_results s j"
  using assms
proof (induction ls arbitrary: i s)
  case Nil
  { case 1 then show ?case by simp }
  { case 2 then show ?case by simp }
  { case 3 then show ?case by simp }
  { case 4 then show ?case by simp }
next
  case (Cons l ls)
  { case 1 then show ?case
      by (auto split: sum.splits simp: Cons.IH(1) process_line_frame(1)) }
  { case 2 then show ?case
      by (auto split: sum.splits simp: Cons.IH(2) process_line_frame(2)) }
  { case 3 then show ?case
      by (auto split: sum.splits simp: Cons.IH(3) process_line_frame(3)) }
  { case 4
    from 4(2) obtain s1 where a: "process_line py i l s = Inr s1"
      and b: "process_lines py (Suc i) ls s1 = Inr s'"
      by (auto split: sum.splits)
    from 4(1) have "j < Suc i \<or> Suc i + length ls \<le> j" and "j \<noteq> i" by auto
    then show ?case using Cons.IH(4)[OF _ b] process_line_frame(4)[OF a] by simp }
qed

lemma process_lines_append:
  "process_lines py i (xs @ ys) s =
     (case process_lines py i xs s of Inl e \<Rightarrow> Inl e
      | Inr s' \<Rightarrow> process_lines py (i + length xs) ys s')"
  by (induction xs arbitrary: i s) (auto split: sum.splits)



section \<open>The old tree: one item, one pass\<close>


lemma show_result_frame:
  assumes "show_result py it prefix result s = (r, s')"
  shows "base_namespace s' = base_namespace s"
    and "decimal_precision s' = decimal_precision s"
    and "namespace s' = namespace s"
    and "variables s' = variables s"
    and "objects s' = objects s"
    and "r \<noteq> None \<Longrightarrow> s' = s"
  using assms by (auto simp: show_result_def split: sum.splits)

lemma execute_multiline_code_frame:
  assumes "execute_multiline_code py code_block s = (r, s')"
  shows "base_namespace s' = base_namespace s"
    and "decimal_precision s' = decimal_precision s"
    and "line_results s' = line_results s"
    and "history s' = history s"
  using assms
  by (auto simp: execute_multiline_code_def Let_def split: prod.splits sum.splits if_splits)

lemma eval_item_frame:
  assumes "eval_item py it s = (r, s')"
  shows "base_namespace s' = base_namespace s"
    and "decimal_precision s' = decimal_precision s"
    and "r \<noteq> None \<Longrightarrow> line_results s' = line_results s"
proof -
  have "base_namespace s' = base_namespace s \<and> decimal_precision s' = decimal_precision s
      \<and> (r \<noteq> None \<longrightarrow> line_results s' = line_results s)"
  proof (cases "is_multiline it")
    case True
    obtain x s1 where ex: "execute_multiline_code py (code it) s = (x, s1)"
      by (cases "execute_multiline_code py (code it) s")
    from True ex assms execute_multiline_code_frame(1-3)[OF ex] show ?thesis
      by (auto simp: eval_item_def split: sum.splits option.splits if_splits
          dest: show_result_frame)
  next
    case False
    with assms show ?thesis
      by (auto simp: eval_item_def Let_def
          split: if_splits list.splits prod.splits sum.splits dest: show_result_frame)
  qed
  then show "base_namespace s' = base_namespace s"
    and "decimal_precision s' = decimal_precision s"
    and "r \<noteq> None \<Longrightarrow> line_results s' = line_results s"
    by simp_all
qed

lemma process_item_cases:
  assumes "process_item py it s = Inr s'"
  shows "s' = s \<or> (\<exists>r s1. eval_item py it (s\<lparr>namespace := namespace s ++ variables s\<rparr>) = (r, s1)
           \<and> handle_exception (line_num it) (r, s1) = Inr s')"
proof (cases "strip (code it) = [] \<or> startswith (strip (code it)) ''#''")
  case True
  with assms have "Inr s = (Inr s' :: pyexc + ('a, 'b) calculator)"
    by (simp only: process_item_def if_True)
  then show ?thesis by simp
next
  case False
  with assms have "handle_exception (line_num it)
      (eval_item py it (s\<lparr>namespace := namespace s ++ variables s\<rparr>)) = Inr s'"
    by (simp only: process_item_def if_False)
  then show ?thesis
    by (cases "eval_item py it (s\<lparr>namespace := namespace s ++ variables s\<rparr>)") simp
qed

lemma process_item_frame:
  assumes "process_item py it s = Inr s'"
  shows "base_namespace s' = base_namespace s"
    and "decimal_precision s' = decimal_precision s"
proof -
  from process_item_cases [OF assms]
  have "base_namespace s' = base_namespace s \<and> decimal_precision s' = decimal_precision s"
  proof
    assume "s' = s"
    then show ?thesis by simp
  next
    assume "\<exists>r s1. eval_item py it (s\<lparr>namespace := namespace s ++ variables s\<rparr>) = (r, s1)
           \<and> handle_exception (line_num it) (r, s1) = Inr s'"
    then obtain r s1
      where ev: "eval_item py it (s\<lparr>namespace := namespace s ++ variables s\<rparr>) = (r, s1)"
        and h: "handle_exception (line_num it) (r, s1) = Inr s'"
      by blast
    from eval_item_frame(1,2)[OF ev] handle_exception_frame(1,2)[OF h]
    show ?thesis by simp
  qed
  then show "base_namespace s' = base_namespace s"
    and "decimal_precision s' = decimal_precision s"
    by simp_all
qed

lemma process_items_frame:
  assumes "process_items py its s = Inr s'"
  shows "base_namespace s' = base_namespace s"
    and "decimal_precision s' = decimal_precision s"
  using assms
  by (induction its arbitrary: s) (auto split: sum.splits dest: process_item_frame)



subsection \<open>The history does not matter\<close>

lemma forget_history_simps [simp]:
  "base_namespace (forget_history s) = base_namespace s"
  "namespace (forget_history s) = namespace s"
  "variables (forget_history s) = variables s"
  "line_results (forget_history s) = line_results s"
  "decimal_precision (forget_history s) = decimal_precision s"
  "objects (forget_history s) = objects s"
  "history (forget_history s) = []"
  by (simp_all add: forget_history_def)

lemma forget_history_update [simp]:
  "forget_history (s\<lparr>line_results := l\<rparr>) = (forget_history s)\<lparr>line_results := l\<rparr>"
  "forget_history (s\<lparr>namespace := n\<rparr>) = (forget_history s)\<lparr>namespace := n\<rparr>"
  "forget_history (s\<lparr>variables := v\<rparr>) = (forget_history s)\<lparr>variables := v\<rparr>"
  "forget_history (s\<lparr>objects := w\<rparr>) = (forget_history s)\<lparr>objects := w\<rparr>"
  "forget_history (s\<lparr>history := h\<rparr>) = forget_history s"
  "forget_history (forget_history s) = forget_history s"
  by (simp_all add: forget_history_def)

lemma execute_multiline_code_forget:
  "execute_multiline_code py c (forget_history s)
     = apsnd forget_history (execute_multiline_code py c s)"
  by (simp add: execute_multiline_code_def Let_def split: prod.splits sum.splits)

lemma show_result_forget:
  "apsnd forget_history (show_result py it prefix result (forget_history s))
     = apsnd forget_history (show_result py it prefix result s)"
  by (simp add: show_result_def split: sum.splits)

lemma eval_item_forget:
  "apsnd forget_history (eval_item py it (forget_history s))
     = apsnd forget_history (eval_item py it s)"
proof (cases "is_multiline it")
  case True
  obtain x s1 where ex: "execute_multiline_code py (code it) s = (x, s1)"
    by (cases "execute_multiline_code py (code it) s")
  then have ex': "execute_multiline_code py (code it) (forget_history s) = (x, forget_history s1)"
    by (simp add: execute_multiline_code_forget)
  from True show ?thesis
    unfolding eval_item_def ex ex'
    by (simp add: show_result_forget split: sum.splits option.splits)
next
  case False
  have pass: "apsnd forget_history (show_result py it prefix result ((forget_history s)\<lparr>namespace := n, objects := w\<rparr>))
      = apsnd forget_history (show_result py it prefix result (s\<lparr>namespace := n, objects := w\<rparr>))"
    for prefix result n w
    using show_result_forget [of py it prefix result "s\<lparr>namespace := n, objects := w\<rparr>"]
    by simp
  have bind: "apsnd forget_history (show_result py it prefix result
        ((forget_history s)\<lparr>variables := v, namespace := n, objects := w\<rparr>))
      = apsnd forget_history (show_result py it prefix result
        (s\<lparr>variables := v, namespace := n, objects := w\<rparr>))"
    for prefix result v n w
    using show_result_forget [of py it prefix result "s\<lparr>variables := v, namespace := n, objects := w\<rparr>"]
    by simp
  from False show ?thesis
    by (simp add: eval_item_def Let_def pass bind split: sum.splits list.splits prod.splits)
qed

lemma handle_exception_forget:
  assumes "apsnd forget_history r1 = apsnd forget_history r2"
  shows "map_sum id forget_history (handle_exception i r1)
     = map_sum id forget_history (handle_exception i r2)"
proof -
  obtain x s1 where r1: "r1 = (x, s1)" by (cases r1)
  obtain y s2 where r2: "r2 = (y, s2)" by (cases r2)
  from assms r1 r2 have "x = y" and eq: "forget_history s1 = forget_history s2" by simp_all
  from eq have "line_results (forget_history s1) = line_results (forget_history s2)"
    by simp
  then have lr: "line_results s1 = line_results s2" by simp
  show ?thesis
    unfolding r1 r2 \<open>x = y\<close>
    using eq lr by (simp add: handle_exception_def split: option.splits pyexc.splits)
qed

lemma process_item_forget:
  "map_sum id forget_history (process_item py it (forget_history s))
     = map_sum id forget_history (process_item py it s)"
proof (cases "strip (code it) = [] \<or> startswith (strip (code it)) ''#''")
  case True
  then show ?thesis by (auto simp: process_item_def)
next
  case False
  let ?s0 = "s\<lparr>namespace := namespace s ++ variables s\<rparr>"
  have "apsnd forget_history (eval_item py it (forget_history ?s0))
      = apsnd forget_history (eval_item py it ?s0)"
    by (rule eval_item_forget)
  then have "map_sum id forget_history
        (handle_exception (line_num it) (eval_item py it (forget_history ?s0)))
      = map_sum id forget_history (handle_exception (line_num it) (eval_item py it ?s0))"
    by (rule handle_exception_forget)
  with False show ?thesis
    by (simp add: process_item_def)
qed

lemma process_items_forget:
  "map_sum id forget_history (process_items py its (forget_history s))
     = map_sum id forget_history (process_items py its s)"
proof (induction its arbitrary: s)
  case Nil
  show ?case by (simp add: forget_history_def)
next
  case (Cons it its)
  have step: "map_sum id forget_history (process_item py it (forget_history s))
      = map_sum id forget_history (process_item py it s)"
    by (rule process_item_forget)
  show ?case
  proof (cases "process_item py it s")
    case (Inl e)
    with step show ?thesis
      by (cases "process_item py it (forget_history s)") auto
  next
    case (Inr s1)
    with step obtain s2 where s2: "process_item py it (forget_history s) = Inr s2"
      and eq: "forget_history s2 = forget_history s1"
      by (cases "process_item py it (forget_history s)") auto
    have "map_sum id forget_history (process_items py its s2)
        = map_sum id forget_history (process_items py its (forget_history s2))"
      by (rule Cons.IH [symmetric])
    also have "\<dots> = map_sum id forget_history (process_items py its s1)"
      unfolding eq by (rule Cons.IH)
    finally show ?thesis using Inr s2 by (simp add: id_def)
  qed
qed

section \<open>A second pass\<close>

lemma reset_frame [simp]:
  "base_namespace (reset s) = base_namespace s"
  "decimal_precision (reset s) = decimal_precision s"
  "history (reset s) = history s"
  "objects (reset s) = objects s"
  by (simp_all add: reset_def)

lemma reset_after_pass:
  assumes "base_namespace s1 = base_namespace s" and "decimal_precision s1 = decimal_precision s"
    and "objects s1 = objects s"
  shows "forget_history (reset s1) = forget_history (reset s)"
  by (rule calculator.equality) (simp_all add: reset_def forget_history_def assms)

lemma reset_after_pass_same:
  assumes "base_namespace s1 = base_namespace s" and "decimal_precision s1 = decimal_precision s"
    and "history s1 = history s" and "objects s1 = objects s"
  shows "reset s1 = reset s"
  by (rule calculator.equality) (simp_all add: reset_def assms)

lemma recalculate_again:
  assumes "recalculate_changed_lines py text s = Inr s1" and "objects s1 = objects s"
  shows "recalculate_changed_lines py text s1 = Inr s1"
proof -
  from assms(1) have run: "process_lines py 0 (split_on newline text) (reset s) = Inr s1"
    by (simp add: recalculate_changed_lines_def)
  have "reset s1 = reset s"
    using process_lines_frame(1-3)[OF run] assms(2) by (intro reset_after_pass_same) simp_all
  with run show ?thesis by (simp add: recalculate_changed_lines_def)
qed

lemma recalculate_again_old:
  assumes "recalculate_changed_lines_old py text s = Inr s1" and "objects s1 = objects s"
  shows "\<exists>s2. recalculate_changed_lines_old py text s1 = Inr s2
           \<and> forget_history s2 = forget_history s1"
proof -
  let ?its = "process_multiline_statements (split_on newline text)"
  from assms(1) have run: "process_items py ?its (reset s) = Inr s1"
    by (simp add: recalculate_changed_lines_old_def)
  have "forget_history (reset s1) = forget_history (reset s)"
    using process_items_frame[OF run] assms(2) by (intro reset_after_pass) simp_all
  then have "map_sum id forget_history (process_items py ?its (reset s1))
      = map_sum id forget_history (process_items py ?its (reset s))"
    using process_items_forget[of py ?its "reset s1"] process_items_forget[of py ?its "reset s"]
    by simp
  with run show ?thesis
    by (cases "process_items py ?its (reset s1)")
      (auto simp: recalculate_changed_lines_old_def)
qed

lemma delete_variable_recalculates:
  assumes "var_name \<in> dom (variables s)"
  shows "delete_variable py (Some text) var_name s = recalculate_changed_lines py text s"
    and "delete_variable_old py (Some text) var_name s = recalculate_changed_lines_old py text s"
  using assms
  by (simp_all add: delete_variable_def recalculate_all_def recalculate_changed_lines_def
      delete_variable_old_def recalculate_all_old_def recalculate_changed_lines_old_def reset_def)

subsection \<open>A runtime that changes no object\<close>

lemma eval_line_objects:
  assumes "\<forall>src g l w. snd (snd (snd (py_eval py src g l w))) = w"
    and "eval_line py i line s = (r, s')"
  shows "objects s' = objects s"
proof -
  have pure: "w = w0" if "py_eval py src g l w0 = (x, g', l', w)" for src g l w0 x g' l' w
    using assms(1) [rule_format, of src g l w0] that by simp
  from assms(2) show ?thesis
    by (auto simp: eval_line_def Let_def
        split: if_splits list.splits prod.splits sum.splits dest: pure)
qed

lemma process_line_objects:
  assumes "\<forall>src g l w. snd (snd (snd (py_eval py src g l w))) = w"
    and "process_line py i line s = Inr s'"
  shows "objects s' = objects s"
proof (cases "strip line = [] \<or> startswith (strip line) ''#''")
  case True
  with assms(2) have "Inr s = (Inr s' :: pyexc + ('a, 'b) calculator)"
    by (simp only: process_line_def if_True)
  then show ?thesis by simp
next
  case False
  with assms(2) have h: "handle_exception i (eval_line py i line s) = Inr s'"
    by (simp only: process_line_def if_False)
  obtain r s1 where ev: "eval_line py i line s = (r, s1)"
    by (cases "eval_line py i line s")
  from h ev have "objects s' = objects s1"
    by (simp add: handle_exception_frame(6))
  with eval_line_objects [OF assms(1) ev] show ?thesis by simp
qed

lemma process_lines_objects:
  assumes "\<forall>src g l w. snd (snd (snd (py_eval py src g l w))) = w"
    and "process_lines py i ls s = Inr s'"
  shows "objects s' = objects s"
  using assms(2)
proof (induction ls arbitrary: i s)
  case Nil
  then show ?case by simp
next
  case (Cons l ls)
  from Cons.prems obtain s1 where a: "process_line py i l s = Inr s1"
    and b: "process_lines py (Suc i) ls s1 = Inr s'"
    by (auto split: sum.splits)
  from Cons.IH [OF b] process_line_objects [OF assms(1) a] show ?case by simp
qed

lemma eval_item_objects:
  assumes "\<forall>src g l w. snd (snd (snd (py_eval py src g l w))) = w"
    and "\<forall>src g w. snd (snd (py_exec py src g w)) = w"
    and "eval_item py it s = (r, s')"
  shows "objects s' = objects s"
proof -
  have pure: "w = w0" if "py_eval py src g l w0 = (x, g', l', w)" for src g l w0 x g' l' w
    using assms(1) [rule_format, of src g l w0] that by simp
  have pure_exec: "w = w0" if "py_exec py src g w0 = (x, g', w)" for src g w0 x g' w
    using assms(2) [rule_format, of src g w0] that by simp
  have block: "objects s1 = objects s"
    if "execute_multiline_code py c s = (x, s1)" for c x s1
    using that
    by (auto simp: execute_multiline_code_def Let_def
        split: if_splits prod.splits sum.splits dest!: pure_exec pure)
  show ?thesis
  proof (cases "is_multiline it")
    case True
    obtain x s1 where ex: "execute_multiline_code py (code it) s = (x, s1)"
      by (cases "execute_multiline_code py (code it) s")
    from True ex assms(3) block [OF ex] show ?thesis
      by (auto simp: eval_item_def split: sum.splits option.splits if_splits
          dest!: show_result_frame(5))
  next
    case False
    with assms(3) show ?thesis
      by (auto simp: eval_item_def Let_def
          split: if_splits list.splits prod.splits sum.splits
          dest!: pure show_result_frame(5))
  qed
qed

lemma process_item_objects:
  assumes "\<forall>src g l w. snd (snd (snd (py_eval py src g l w))) = w"
    and "\<forall>src g w. snd (snd (py_exec py src g w)) = w"
    and "process_item py it s = Inr s'"
  shows "objects s' = objects s"
proof -
  from process_item_cases [OF assms(3)] show ?thesis
  proof
    assume "s' = s"
    then show ?thesis by simp
  next
    assume "\<exists>r s1. eval_item py it (s\<lparr>namespace := namespace s ++ variables s\<rparr>) = (r, s1)
           \<and> handle_exception (line_num it) (r, s1) = Inr s'"
    then obtain r s1
      where ev: "eval_item py it (s\<lparr>namespace := namespace s ++ variables s\<rparr>) = (r, s1)"
        and h: "handle_exception (line_num it) (r, s1) = Inr s'"
      by blast
    from eval_item_objects [OF assms(1,2) ev] handle_exception_frame(6)[OF h]
    show ?thesis by simp
  qed
qed

lemma process_items_objects:
  assumes "\<forall>src g l w. snd (snd (snd (py_eval py src g l w))) = w"
    and "\<forall>src g w. snd (snd (py_exec py src g w)) = w"
    and "process_items py its s = Inr s'"
  shows "objects s' = objects s"
  using assms(3)
proof (induction its arbitrary: s)
  case Nil
  then show ?case by simp
next
  case (Cons it its)
  from Cons.prems obtain s1 where a: "process_item py it s = Inr s1"
    and b: "process_items py its s1 = Inr s'"
    by (auto split: sum.splits)
  from Cons.IH [OF b] process_item_objects [OF assms(1,2) a] show ?case by simp
qed

section \<open>Formatting floats\<close>

lemma tiny_iff:
  "(float_lt (float_abs x) c \<and> \<not> float_eq x float_zero)
     = (float_lt float_zero (float_abs x) \<and> float_lt (float_abs x) c)"
  by (cases x; cases c) (auto simp: float_zero_def fsigned_def fden_def fnum_def)

lemma format_float_cases:
  "format_float p x =
     (if float_gt (float_abs x) float_1e10
         \<or> (float_lt float_zero (float_abs x) \<and> float_lt (float_abs x) float_1em4)
      then format_e p x else format_g p x)"
  unfolding format_float_def tiny_iff ..

lemma format_1e12: "format_float 6 float_1e12 = ''1.000000e+12''"
  by (simp add: fmt_defs num_defs)

lemma format_third: "format_float 6 float_third = ''0.333333''"
  by (simp add: fmt_defs num_defs)

lemma format_g_small:
  "format_g 6 (float_of_nat 3) = ''3''" "format_g 6 (float_of_nat 4) = ''4''"
  "format_g 6 (float_of_nat 5) = ''5''" "format_g 6 (Fin True 4 0) = ''-4''"
  by (simp_all add: fmt_defs num_defs)

lemma format_g_1e12: "format_g 6 float_1e12 = ''1e+12''"
  by (simp add: fmt_defs num_defs)

subsection \<open>The scientific format prints one digit and then as many as the precision\<close>

lemma str_nat_nonempty: "str_nat n \<noteq> []"
  by (subst str_nat.simps) simp

lemma str_nat_bounds:
  "0 < n \<Longrightarrow> 10 ^ (length (str_nat n) - 1) \<le> n \<and> n < 10 ^ length (str_nat n)"
proof (induction n rule: str_nat.induct)
  case (1 n)
  show ?case
  proof (cases "n < 10")
    case True
    with "1.prems" show ?thesis by (subst (1 2) str_nat.simps) simp
  next
    case False
    let ?L = "length (str_nat (n div 10))"
    from False have pos: "0 < n div 10" by simp
    from "1.IH" [OF False pos]
    have lo: "10 ^ (?L - 1) \<le> n div 10" and hi: "n div 10 < 10 ^ ?L" by simp_all
    have L: "0 < ?L" using str_nat_nonempty [of "n div 10"] by simp
    have len: "length (str_nat n) = ?L + 1"
      using False by (subst str_nat.simps) simp
    from lo have "10 * 10 ^ (?L - 1) \<le> 10 * (n div 10)" by simp
    also have "\<dots> \<le> n" by simp
    finally have a: "10 ^ ?L \<le> n"
      using L by (cases ?L) simp_all
    from hi have "n div 10 + 1 \<le> 10 ^ ?L" by simp
    then have "10 * (n div 10 + 1) \<le> 10 * 10 ^ ?L" by simp
    moreover have "n < 10 * (n div 10 + 1)" by presburger
    ultimately have b: "n < 10 ^ (?L + 1)" by simp
    from a b len show ?thesis by simp
  qed
qed

lemma length_str_nat:
  assumes "10 ^ k \<le> n" and "n < 10 ^ (k + 1)"
  shows "length (str_nat n) = k + 1"
proof -
  let ?L = "length (str_nat n)"
  from assms(1) have "0 < n"
    by (metis gr0I not_one_le_zero one_le_numeral one_le_power order.trans zero_less_one
        less_le_trans zero_less_numeral zero_less_power)
  then have lo: "10 ^ (?L - 1) \<le> n" and hi: "n < 10 ^ ?L"
    using str_nat_bounds by simp_all
  from lo assms(2) have "(10::nat) ^ (?L - 1) < 10 ^ (k + 1)" by (rule le_less_trans)
  then have "?L - 1 < k + 1" by (rule power_less_imp_less_exp [rotated]) simp
  moreover from assms(1) hi have "(10::nat) ^ k < 10 ^ ?L" by (rule le_less_trans)
  then have "k < ?L" by (rule power_less_imp_less_exp [rotated]) simp
  ultimately show ?thesis by simp
qed

lemma ge_pow10_real: "ge_pow10 a b k \<longleftrightarrow> real b * 10 powi k \<le> real a"
proof (cases "0 \<le> k")
  case True
  then have "(10::real) powi k = 10 ^ nat k" by (simp add: power_int_def)
  moreover have "b * 10 ^ nat k \<le> a \<longleftrightarrow> real b * 10 ^ nat k \<le> real a"
    by (metis of_nat_le_iff of_nat_mult of_nat_numeral of_nat_power)
  ultimately show ?thesis using True by (simp add: ge_pow10_def)
next
  case False
  then have p: "(10::real) powi k = inverse (10 ^ nat (- k))"
    by (simp add: power_int_def power_one_over inverse_eq_divide)
  have "b \<le> a * 10 ^ nat (- k) \<longleftrightarrow> real b \<le> real a * 10 ^ nat (- k)"
    by (metis of_nat_le_iff of_nat_mult of_nat_numeral of_nat_power)
  also have "\<dots> \<longleftrightarrow> real b * inverse (10 ^ nat (- k)) \<le> real a"
    by (simp add: field_simps)
  finally show ?thesis using False by (simp add: ge_pow10_def p)
qed

lemma str_nat_bounds_real:
  assumes "0 < n"
  shows "10 powi (int (length (str_nat n)) - 1) \<le> real n"
    and "real n < 10 powi int (length (str_nat n))"
proof -
  let ?L = "length (str_nat n)"
  from str_nat_bounds [OF assms] have lo: "10 ^ (?L - 1) \<le> n" and hi: "n < 10 ^ ?L"
    by simp_all
  obtain m where m: "?L = Suc m"
    using str_nat_nonempty [of n] by (cases "str_nat n") simp_all
  then have "int ?L - 1 = int (?L - 1)" by simp
  then have "(10::real) powi (int ?L - 1) = 10 ^ (?L - 1)" by (simp only: power_int_of_nat)
  also from lo have "\<dots> \<le> real n"
    by (metis of_nat_le_iff of_nat_numeral of_nat_power)
  finally show "10 powi (int ?L - 1) \<le> real n" .
  from hi have "real n < 10 ^ ?L"
    by (metis of_nat_less_iff of_nat_numeral of_nat_power)
  then show "real n < 10 powi int ?L" by simp
qed

lemma dec_exp_bounds:
  assumes "0 < a" and "0 < b"
  shows "real b * 10 powi dec_exp a b \<le> real a"
    and "real a < real b * 10 powi (dec_exp a b + 1)"
proof -
  let ?da = "int (length (str_nat a))" and ?db = "int (length (str_nat b))"
  let ?k = "?da - ?db"
  note A = str_nat_bounds_real [OF assms(1)] and B = str_nat_bounds_real [OF assms(2)]
  have pos: "0 < (10::real) powi j" for j by (simp add: zero_less_power_int)
  have upper: "real a < real b * 10 powi (?k + 1)"
  proof -
    have "real a < 10 powi ?da" by (rule A(2))
    also have "\<dots> = 10 powi ((?db - 1) + (?k + 1))" by simp
    also have "\<dots> = 10 powi (?db - 1) * 10 powi (?k + 1)"
      by (rule power_int_add) simp
    also have "\<dots> \<le> real b * 10 powi (?k + 1)"
      using B(1) pos [of "?k + 1"] by (simp add: mult_right_mono)
    finally show ?thesis .
  qed
  have lower: "real b * 10 powi (?k - 1) \<le> real a"
  proof -
    have "real b * 10 powi (?k - 1) \<le> 10 powi ?db * 10 powi (?k - 1)"
      using B(2) pos [of "?k - 1"] by (simp add: mult_right_mono)
    also have "\<dots> = 10 powi (?db + (?k - 1))"
      by (rule power_int_add [symmetric]) simp
    also have "\<dots> = 10 powi (?da - 1)" by simp
    also have "\<dots> \<le> real a" by (rule A(1))
    finally show ?thesis .
  qed
  show "real b * 10 powi dec_exp a b \<le> real a"
    using lower by (auto simp: dec_exp_def Let_def ge_pow10_real)
  show "real a < real b * 10 powi (dec_exp a b + 1)"
    using upper by (auto simp: dec_exp_def Let_def ge_pow10_real not_le)
qed

lemma round_half_even_bounds:
  assumes "0 < D" and "lo * D \<le> N" and "N < hi * D"
  shows "lo \<le> round_half_even N D" and "round_half_even N D \<le> hi"
proof -
  from assms(1,2) have "lo \<le> N div D"
    by (simp add: less_eq_div_iff_mult_less_eq)
  moreover from assms(1,3) have "N div D < hi"
    by (simp add: div_less_iff_less_mult)
  ultimately show "lo \<le> round_half_even N D" and "round_half_even N D \<le> hi"
    by (auto simp: round_half_even_def Let_def)
qed

lemma scaled_round_fraction:
  assumes "0 < b"
  obtains N D c where "scaled_round a b s = round_half_even N D" and "0 < D" and "0 < c"
    and "real N = real a * c" and "real D = real b * 10 powi s * c"
proof (cases "0 \<le> s")
  case True
  then have p: "(10::real) powi s = 10 ^ nat s" by (simp add: power_int_def)
  show ?thesis
  proof (rule that [of a "b * 10 ^ nat s" 1])
    show "scaled_round a b s = round_half_even a (b * 10 ^ nat s)"
      using True by (simp add: scaled_round_def)
    show "0 < b * 10 ^ nat s" using assms by simp
    show "real (b * 10 ^ nat s) = real b * 10 powi s * 1" by (simp add: p)
  qed simp_all
next
  case False
  then have p: "(10::real) powi s = inverse (10 ^ nat (- s))"
    by (simp add: power_int_def power_one_over inverse_eq_divide)
  show ?thesis
  proof (rule that [of "a * 10 ^ nat (- s)" b "10 ^ nat (- s)"])
    show "scaled_round a b s = round_half_even (a * 10 ^ nat (- s)) b"
      using False by (simp add: scaled_round_def)
    show "real b = real b * 10 powi s * 10 ^ nat (- s)" by (simp add: p)
  qed (use assms in simp_all)
qed

lemma scaled_round_bounds:
  assumes "0 < a" and "0 < b" and "0 < n"
  shows "10 ^ (n - 1) \<le> scaled_round a b (dec_exp a b - (int n - 1))"
    and "scaled_round a b (dec_exp a b - (int n - 1)) \<le> 10 ^ n"
proof -
  let ?x = "dec_exp a b"
  let ?s = "?x - (int n - 1)"
  obtain N D c where sr: "scaled_round a b ?s = round_half_even N D" and D: "0 < D"
    and c: "0 < c" and N: "real N = real a * c" and D': "real D = real b * 10 powi ?s * c"
    using scaled_round_fraction [OF assms(2)] by blast
  from assms(3) have n: "int n - 1 = int (n - 1)" by simp
  have split_lo: "(10::real) powi ?x = 10 ^ (n - 1) * 10 powi ?s"
  proof -
    have "(10::real) powi ?x = 10 powi (int (n - 1) + ?s)" by (simp add: n)
    also have "\<dots> = 10 powi int (n - 1) * 10 powi ?s" by (rule power_int_add) simp
    finally show ?thesis by simp
  qed
  have split_hi: "(10::real) powi (?x + 1) = 10 ^ n * 10 powi ?s"
  proof -
    have "(10::real) powi (?x + 1) = 10 powi (int n + ?s)" by simp
    also have "\<dots> = 10 powi int n * 10 powi ?s" by (rule power_int_add) simp
    finally show ?thesis by simp
  qed
  have "real (10 ^ (n - 1) * D) = (real b * 10 powi ?x) * c"
    by (simp add: D' split_lo)
  also have "\<dots> \<le> real a * c"
    using dec_exp_bounds(1) [OF assms(1,2)] c by (simp add: mult_right_mono)
  also have "\<dots> = real N" by (simp add: N)
  finally have lo: "10 ^ (n - 1) * D \<le> N" by (simp only: of_nat_le_iff)
  have "real N = real a * c" by (rule N)
  also have "\<dots> < (real b * 10 powi (?x + 1)) * c"
    using dec_exp_bounds(2) [OF assms(1,2)] c by (simp add: mult_strict_right_mono)
  also have "\<dots> = real (10 ^ n * D)"
    by (simp add: D' split_hi)
  finally have hi: "N < 10 ^ n * D" by (simp only: of_nat_less_iff)
  from round_half_even_bounds [OF D lo hi] sr
  show "10 ^ (n - 1) \<le> scaled_round a b ?s" and "scaled_round a b ?s \<le> 10 ^ n"
    by simp_all
qed

lemma length_sig_digits:
  assumes "0 < b" and "0 < n"
  shows "length (fst (sig_digits n a b)) = n"
proof (cases "a = 0")
  case True
  then show ?thesis by (simp add: sig_digits_def)
next
  case False
  then have a: "0 < a" by simp
  let ?d = "scaled_round a b (dec_exp a b - (int n - 1))"
  from assms(2) obtain k where k: "n = k + 1" by (cases n) simp_all
  have top: "length (str_nat (10 ^ (n - 1))) = n"
    using length_str_nat [of k "10 ^ k"] by (simp add: k)
  show ?thesis
  proof (cases "?d = 10 ^ n")
    case True
    with False top show ?thesis by (simp add: sig_digits_def Let_def)
  next
    case neq: False
    from scaled_round_bounds [OF a assms] neq have "10 ^ k \<le> ?d" and "?d < 10 ^ (k + 1)"
      by (simp_all add: k)
    then have "length (str_nat ?d) = k + 1" by (rule length_str_nat)
    with False neq show ?thesis by (simp add: sig_digits_def Let_def k)
  qed
qed

lemma fden_positive: "0 < fden e"
  by (simp add: fden_def)

lemma format_e_shape:
  "\<exists>d ds x. length ds = p
     \<and> format_e p (Fin s m e) = sign_text s @ with_point [d] ds @ ''e'' @ exp_text x"
proof -
  obtain digits x where sd: "sig_digits (p + 1) (fnum m e) (fden e) = (digits, x)"
    by (cases "sig_digits (p + 1) (fnum m e) (fden e)")
  have "length (fst (sig_digits (p + 1) (fnum m e) (fden e))) = p + 1"
    by (rule length_sig_digits) (simp_all add: fden_positive)
  with sd have "length digits = p + 1" by simp
  then obtain d ds where "digits = d # ds" and "length ds = p"
    by (cases digits) simp_all
  with sd have "format_e p (Fin s m e) = sign_text s @ with_point [d] ds @ ''e'' @ exp_text x"
    by (simp add: format_e.simps)
  with \<open>length ds = p\<close> show ?thesis by blast
qed

section \<open>Concrete documents\<close>

lemma xy_lines: "split_on newline xy_document = [''x = 2'', ''y = x + 3'', ''y'']"
  by (simp add: xy_document_def newline_def)

lemma xy_items:
  "process_multiline_statements [''x = 2'', ''y = x + 3'', ''y''] =
     [\<lparr>line_num = 0, code = ''x = 2'', is_multiline = False\<rparr>,
      \<lparr>line_num = 1, code = ''y = x + 3'', is_multiline = False\<rparr>,
      \<lparr>line_num = 2, code = ''y'', is_multiline = False\<rparr>]"
  by (simp add: seg_defs str_defs)

lemma sum_lines: "split_on newline sum_document = [''1 + 2'', ''3 * 4 - 5'']"
  by (simp add: sum_document_def newline_def)

lemma sum_items:
  "process_multiline_statements [''1 + 2'', ''3 * 4 - 5''] =
     [\<lparr>line_num = 0, code = ''1 + 2'', is_multiline = False\<rparr>,
      \<lparr>line_num = 1, code = ''3 * 4 - 5'', is_multiline = False\<rparr>]"
  by (simp add: seg_defs str_defs)

lemma x_lines: "split_on newline x_document = [''x = 2'', ''x + 1'']"
  by (simp add: x_document_def newline_def)

lemma x_items:
  "process_multiline_statements [''x = 2'', ''x + 1''] =
     [\<lparr>line_num = 0, code = ''x = 2'', is_multiline = False\<rparr>,
      \<lparr>line_num = 1, code = ''x + 1'', is_multiline = False\<rparr>]"
  by (simp add: seg_defs str_defs)




lemma def_lines:
  "split_on newline def_block = [''def f(n):'', ''    return n * 2'', ''f(3)'']"
  by (simp add: def_block_def newline_def)

lemma def_items:
  "process_multiline_statements [''def f(n):'', ''    return n * 2'', ''f(3)'']
     = [\<lparr>line_num = 0, code = def_block, is_multiline = True\<rparr>]"
  by (simp add: seg_defs str_defs def_block_def newline_def)

lemma def_block_shape:
  "strip def_block \<noteq> []" "\<not> startswith (strip def_block) ''#''"
  "strip (last (split_on newline (strip def_block))) = ''f(3)''"
  by (simp_all add: str_defs def_block_def newline_def)

lemma last_line_is_expression:
  "\<not> list_ex (startswith ''f(3)'') statement_keywords"
  by (simp add: statement_keywords_def startswith_def)

lemma loop_block_shape:
  "strip loop_block \<noteq> []" "\<not> startswith (strip loop_block) ''#''"
  "strip (last (split_on newline (strip loop_block))) = ''x = i''"
  "\<not> list_ex (startswith ''x = i'') statement_keywords"
  by (simp_all add: str_defs loop_block_def newline_def statement_keywords_def)

lemma demo_exec_blocks:
  "demo_exec def_block g w = (Inr [''f'' \<mapsto> double_function], with_builtins g, w)"
  "demo_exec loop_block g w = (Inr [''i'' \<mapsto> VInt 2, ''x'' \<mapsto> VInt 2], with_builtins g, w)"
  "demo_exec exit_block g w = (Inl (BaseOnly []), with_builtins g, w)"
  by (simp_all add: demo_exec_def def_block_def loop_block_def exit_block_def newline_def)





subsection \<open>An integer too long to print\<close>

lemma big_nat_digits: "length (str_nat big_nat) = 5001"
proof -
  have "(10::nat) ^ 5000 \<le> big_nat"
    by (simp only: big_nat_def le_refl)
  moreover have "big_nat < 10 ^ (5000 + 1)"
    unfolding big_nat_def by (rule power_strict_increasing) simp_all
  ultimately have "length (str_nat big_nat) = 5000 + 1"
    by (rule length_str_nat)
  then show ?thesis by simp
qed

lemma str_big_nat:
  "str_int_limited 4300 (int big_nat) = Inl (Exception (digits_error 4300))"
  by (simp add: str_int_limited_def big_nat_digits)

lemma str_int_digit: "\<bar>i\<bar> < 10 \<Longrightarrow> str_int_limited limit i = Inr (str_int i)"
proof -
  assume "\<bar>i\<bar> < 10"
  then have "nat \<bar>i\<bar> < 10" by simp
  then have "length (str_nat (nat \<bar>i\<bar>)) = 1"
    by (simp add: str_nat.simps [of "nat \<bar>i\<bar>"])
  then show ?thesis
    by (auto simp: str_int_limited_def)
qed





section \<open>Formatting sequences\<close>

lemma collect_texts_all: "collect_texts (map Inr texts) = Inr texts"
  by (induction texts) simp_all

lemma collect_texts_raised:
  "Inl e \<in> set rs \<Longrightarrow> \<exists>e'. collect_texts rs = Inl e'"
proof (induction rs)
  case Nil
  then show ?case by simp
next
  case (Cons r rs)
  show ?case
  proof (cases r)
    case (Inl a)
    then show ?thesis by simp
  next
    case (Inr t)
    with Cons.prems have "Inl e \<in> set rs" by auto
    with Cons.IH obtain e' where "collect_texts rs = Inl e'" by blast
    with Inr show ?thesis by simp
  qed
qed

lemma str_nat_11: "str_nat 11 = ''11''"
  by (simp add: num_defs)

section \<open>Failing units\<close>





section \<open>The claims\<close>

subsection \<open>C1: assignment lines\<close>




subsection \<open>C2: a block with a trailing expression\<close>

text \<open>
  C2. In the old tree the three lines \<open>def f(n):\<close>, \<open>    return n * 2\<close>, \<open>f(3)\<close> are segmented
  into exactly one block item at line 0. Where \<open>exec\<close> of the block leaves \<open>f\<close> bound in
  \<open>local_ns\<close> and \<open>eval\<close> of the last line \<open>f(3)\<close>, in the globals that \<open>exec\<close> has left
  and in \<open>local_ns\<close>, gives 6, the pass shows \<open>6\<close> for line 0 and nothing else, \<open>f\<close> is in
  the variables, and the next unit, which is evaluated in \<open>namespace ++ variables\<close>, finds
  \<open>f\<close> there; the namespace and the objects are as \<open>exec\<close> and \<open>eval\<close> have left them.
  For every block whose \<open>exec\<close> succeeds and whose last line is evaluated and raises, whatever
  the exception, the unit does not fail: its bindings are kept and its line shows
  \<open>executed\<close>.
\<close>

theorem def_block_run:
  "process_multiline_statements (split_on newline def_block)
     = [\<lparr>line_num = 0, code = def_block, is_multiline = True\<rparr>]
   \<and> (py_exec py def_block (base_namespace s) (objects s) = (Inr [''f'' \<mapsto> fv], g1, w1)
        \<and> py_eval py ''f(3)'' g1 [''f'' \<mapsto> fv] w1 = (Inr r, g2, l2, w2)
        \<and> py_value py w2 r = VInt 6
      \<longrightarrow> (\<exists>s'. recalculate_changed_lines_old py def_block s = Inr s'
             \<and> line_results s' = [0 \<mapsto> ''6''] \<and> variables s' = [''f'' \<mapsto> fv]
             \<and> (namespace s' ++ variables s') ''f'' = Some fv
             \<and> namespace s' = g2 \<and> objects s' = w2))
   \<and> (is_multiline it \<and> strip (code it) \<noteq> [] \<and> \<not> startswith (strip (code it)) ''#''
        \<and> py_exec py (code it) (namespace t ++ variables t) (objects t) = (Inr local_ns, g3, w3)
        \<and> last_line = strip (last (split_on newline (strip (code it))))
        \<and> last_line \<noteq> [] \<and> \<not> list_ex (startswith last_line) statement_keywords
        \<and> py_eval py last_line g3 local_ns w3 = (Inl e, g4, l4, w4)
      \<longrightarrow> process_item py it t
          = Inr (t\<lparr>namespace := g4, objects := w4,
                    variables := variables t ++ local_ns,
                    line_results := (line_results t)(line_num it \<mapsto> ''executed'')\<rparr>))"
proof (intro conjI impI)
  show "process_multiline_statements (split_on newline def_block)
     = [\<lparr>line_num = 0, code = def_block, is_multiline = True\<rparr>]"
    by (simp add: def_lines def_items)
next
  assume "py_exec py def_block (base_namespace s) (objects s) = (Inr [''f'' \<mapsto> fv], g1, w1)
        \<and> py_eval py ''f(3)'' g1 [''f'' \<mapsto> fv] w1 = (Inr r, g2, l2, w2)
        \<and> py_value py w2 r = VInt 6"
  then show "\<exists>s'. recalculate_changed_lines_old py def_block s = Inr s'
             \<and> line_results s' = [0 \<mapsto> ''6''] \<and> variables s' = [''f'' \<mapsto> fv]
             \<and> (namespace s' ++ variables s') ''f'' = Some fv
             \<and> namespace s' = g2 \<and> objects s' = w2"
    by (simp add: recalculate_changed_lines_old_def def_lines def_items reset_def
        process_item_def eval_item_def show_result_def handle_exception_def
        execute_multiline_code_def def_block_shape last_line_is_expression Let_def
        str_int_digit num_defs)
next
  assume "is_multiline it \<and> strip (code it) \<noteq> [] \<and> \<not> startswith (strip (code it)) ''#''
        \<and> py_exec py (code it) (namespace t ++ variables t) (objects t) = (Inr local_ns, g3, w3)
        \<and> last_line = strip (last (split_on newline (strip (code it))))
        \<and> last_line \<noteq> [] \<and> \<not> list_ex (startswith last_line) statement_keywords
        \<and> py_eval py last_line g3 local_ns w3 = (Inl e, g4, l4, w4)"
  then show "process_item py it t
          = Inr (t\<lparr>namespace := g4, objects := w4,
                    variables := variables t ++ local_ns,
                    line_results := (line_results t)(line_num it \<mapsto> ''executed'')\<rparr>)"
    by (auto simp: process_item_def eval_item_def handle_exception_def
        execute_multiline_code_def Let_def)
qed

theorem def_block_run_witness:
  "(\<exists>s'. recalculate_changed_lines_old demo_py def_block fresh = Inr s'
      \<and> line_results s' = [0 \<mapsto> ''6''] \<and> variables s' = [''f'' \<mapsto> double_function]
      \<and> (namespace s' ++ variables s') ''f'' = Some double_function
      \<and> namespace s' = with_builtins (base_namespace fresh))
   \<and> process_item demo_py \<lparr>line_num = 0, code = loop_block, is_multiline = True\<rparr> fresh
       = Inr (fresh\<lparr>namespace := with_builtins (namespace fresh),
                    variables := [''i'' \<mapsto> VInt 2, ''x'' \<mapsto> VInt 2],
                    line_results := [0 \<mapsto> ''executed'']\<rparr>)
   \<and> (\<exists>s'. recalculate_changed_lines_old demo_py (def_block @ [newline] @ ''f(4) + 1'') fresh
         = Inr s' \<and> line_results s' = [0 \<mapsto> ''6'', 3 \<mapsto> ''9''])"
proof -
  let ?it = "\<lparr>line_num = 0, code = loop_block, is_multiline = True\<rparr>"
  let ?g = "with_builtins (base_namespace fresh)"
  let ?loc = "[''i'' \<mapsto> VInt 2, ''x'' \<mapsto> VInt 2]"
  have ns: "namespace fresh ++ variables fresh = namespace fresh"
    "base_namespace fresh = namespace fresh"
    by (simp_all add: fresh_def)
  have call: "demo_eval ''f(3)'' g [''f'' \<mapsto> double_function] w
      = (Inr (VInt 6), g, [''f'' \<mapsto> double_function], w)" for g w
    by (simp add: demo_eval_def demo_value_def demo_atom_def is_number_def is_name_def
        is_atom_def call_parts_def parse_nat_def digit_value_def walrus_line_def big_power_def)
  have h1: "py_exec demo_py def_block (base_namespace fresh) (objects fresh)
          = (Inr [''f'' \<mapsto> double_function], ?g, ())
        \<and> py_eval demo_py ''f(3)'' ?g [''f'' \<mapsto> double_function] ()
            = (Inr (VInt 6), ?g, [''f'' \<mapsto> double_function], ())
        \<and> py_value demo_py () (VInt 6) = VInt 6"
    by (simp add: demo_py_def demo_exec_blocks call)
  have h2: "is_multiline ?it \<and> strip (code ?it) \<noteq> [] \<and> \<not> startswith (strip (code ?it)) ''#''
        \<and> py_exec demo_py (code ?it) (namespace fresh ++ variables fresh) (objects fresh)
            = (Inr ?loc, with_builtins (namespace fresh), ())
        \<and> ''x = i'' = strip (last (split_on newline (strip (code ?it))))
        \<and> ''x = i'' \<noteq> [] \<and> \<not> list_ex (startswith ''x = i'') statement_keywords
        \<and> py_eval demo_py ''x = i'' (with_builtins (namespace fresh)) ?loc ()
            = (Inl (Exception syntax_error), with_builtins (namespace fresh), ?loc, ())"
    unfolding ns
    by (simp add: loop_block_shape demo_py_def demo_exec_blocks)
      (simp add: demo_eval_def demo_value_def is_number_def is_name_def is_atom_def
        call_parts_def walrus_line_def big_power_def)
  from def_block_run [of demo_py fresh double_function ?g "()" "VInt 6" ?g
      "[''f'' \<mapsto> double_function]" "()" ?it fresh ?loc "with_builtins (namespace fresh)" "()"
      "''x = i''" "Exception syntax_error" "with_builtins (namespace fresh)" ?loc "()"] h1 h2
  have a: "\<exists>s'. recalculate_changed_lines_old demo_py def_block fresh = Inr s'
             \<and> line_results s' = [0 \<mapsto> ''6''] \<and> variables s' = [''f'' \<mapsto> double_function]
             \<and> (namespace s' ++ variables s') ''f'' = Some double_function
             \<and> namespace s' = ?g \<and> objects s' = ()"
    and b: "process_item demo_py ?it fresh
          = Inr (fresh\<lparr>namespace := with_builtins (namespace fresh), objects := (),
                    variables := variables fresh ++ ?loc,
                    line_results := (line_results fresh)(line_num ?it \<mapsto> ''executed'')\<rparr>)"
    by blast+
  from a have "\<exists>s'. recalculate_changed_lines_old demo_py def_block fresh = Inr s'
      \<and> line_results s' = [0 \<mapsto> ''6''] \<and> variables s' = [''f'' \<mapsto> double_function]
      \<and> (namespace s' ++ variables s') ''f'' = Some double_function
      \<and> namespace s' = ?g"
    by auto
  moreover from b have "process_item demo_py ?it fresh
       = Inr (fresh\<lparr>namespace := with_builtins (namespace fresh),
                    variables := [''i'' \<mapsto> VInt 2, ''x'' \<mapsto> VInt 2],
                    line_results := [0 \<mapsto> ''executed'']\<rparr>)"
    by (simp add: fresh_def)
  moreover have "\<exists>s'. recalculate_changed_lines_old demo_py (def_block @ [newline] @ ''f(4) + 1'') fresh
         = Inr s' \<and> line_results s' = [0 \<mapsto> ''6'', 3 \<mapsto> ''9'']"
  proof -
    have "split_on newline (def_block @ [newline] @ ''f(4) + 1'')
        = [''def f(n):'', ''    return n * 2'', ''f(3)'', ''f(4) + 1'']"
      by (simp add: def_block_def newline_def)
    moreover have "process_multiline_statements
          [''def f(n):'', ''    return n * 2'', ''f(3)'', ''f(4) + 1'']
        = [\<lparr>line_num = 0, code = def_block, is_multiline = True\<rparr>,
           \<lparr>line_num = 3, code = ''f(4) + 1'', is_multiline = False\<rparr>]"
      by (simp add: seg_defs str_defs def_block_def newline_def)
    moreover have "demo_eval ''f(4) + 1'' g l w = (Inr (VInt 9), g, l, w)"
      if "l ''f'' = Some double_function" for g l w
      using that
      by (simp add: demo_eval_def demo_value_def demo_atom_def demo_int_def is_number_def
          is_name_def is_atom_def call_parts_def parse_nat_def digit_value_def map_add_def
          walrus_line_def big_power_def)
    moreover have "\<not> is_assignment_old ''f(4) + 1''" "strip ''f(4) + 1'' \<noteq> []"
      "\<not> startswith (strip ''f(4) + 1'') ''#''"
      by (simp_all add: is_assignment_old_def str_defs)
    ultimately show ?thesis
      by (simp add: recalculate_changed_lines_old_def reset_def process_item_def
          eval_item_def show_result_def handle_exception_def execute_multiline_code_def
          def_block_shape last_line_is_expression Let_def str_int_digit num_defs
          demo_exec_blocks call demo_py_def fresh_def)
  qed
  ultimately show ?thesis by blast
qed

subsection \<open>C3: a failing unit\<close>




subsection \<open>C4: three lines\<close>

text \<open>
  C4. Recalculating the three-line document \<open>x = 2\<close>, \<open>y = x + 3\<close>, \<open>y\<close> gives a
  \<open>line_results\<close> with exactly the entries \<open>0 \<mapsto> "x = 2"\<close>, \<open>1 \<mapsto> "y = 5"\<close> and
  \<open>2 \<mapsto> "5"\<close>, in the current tree and in the old tree, from any state, with any runtime
  whose \<open>eval\<close> gives \<open>2\<close> for \<open>2\<close>, \<open>5\<close> for \<open>x + 3\<close> where \<open>x\<close> is \<open>2\<close>, and \<open>5\<close> for
  \<open>y\<close> where \<open>y\<close> is \<open>5\<close>.
\<close>

theorem recalculate_xy:
  assumes e1: "\<And>l w. \<exists>r g l' w'. py_eval py ''2'' (no_builtins py) l w = (Inr r, g, l', w')
                  \<and> py_value py w' r = VInt 2"
    and e2: "\<And>l w x. l ''x'' = Some x \<Longrightarrow> py_value py w x = VInt 2
               \<Longrightarrow> \<exists>r g l' w'. py_eval py ''x + 3'' (no_builtins py) l w = (Inr r, g, l', w')
                     \<and> py_value py w' r = VInt 5"
    and e3: "\<And>l w y. l ''y'' = Some y \<Longrightarrow> py_value py w y = VInt 5
               \<Longrightarrow> \<exists>r g l' w'. py_eval py ''y'' (no_builtins py) l w = (Inr r, g, l', w')
                     \<and> py_value py w' r = VInt 5"
  shows "(\<exists>s'. recalculate_changed_lines py xy_document s = Inr s'
            \<and> line_results s' = [0 \<mapsto> ''x = 2'', 1 \<mapsto> ''y = 5'', 2 \<mapsto> ''5''])
       \<and> (\<exists>s'. recalculate_changed_lines_old py xy_document s = Inr s'
            \<and> line_results s' = [0 \<mapsto> ''x = 2'', 1 \<mapsto> ''y = 5'', 2 \<mapsto> ''5''])"
proof
  obtain r1 g1 l1 w1
    where a1: "py_eval py ''2'' (no_builtins py) (base_namespace s) (objects s)
                 = (Inr r1, g1, l1, w1)"
      and v1: "py_value py w1 r1 = VInt 2"
    using e1 by blast
  from e2 [where l = "l1(''x'' \<mapsto> r1)" and w = w1 and x = r1] v1 obtain r2 g2 l2 w2
    where a2: "py_eval py ''x + 3'' (no_builtins py) (l1(''x'' \<mapsto> r1)) w1 = (Inr r2, g2, l2, w2)"
      and v2: "py_value py w2 r2 = VInt 5"
    by auto
  from e3 [where l = "l2(''y'' \<mapsto> r2)" and w = w2 and y = r2] v2 obtain r3 g3 l3 w3
    where a3: "py_eval py ''y'' (no_builtins py) (l2(''y'' \<mapsto> r2)) w2 = (Inr r3, g3, l3, w3)"
      and v3: "py_value py w3 r3 = VInt 5"
    by auto
  show "\<exists>s'. recalculate_changed_lines py xy_document s = Inr s'
            \<and> line_results s' = [0 \<mapsto> ''x = 2'', 1 \<mapsto> ''y = 5'', 2 \<mapsto> ''5'']"
    by (simp add: recalculate_changed_lines_def xy_lines reset_def process_line_def
        eval_line_def handle_exception_def is_assignment_def comparison_ops_def
        str_int_digit str_defs num_defs a1 a2 a3 v1 v2 v3 numeral_2_eq_2)
next
  obtain r1 g1 l1 w1
    where a1: "py_eval py ''2'' (no_builtins py) (base_namespace s) (objects s)
                 = (Inr r1, g1, l1, w1)"
      and v1: "py_value py w1 r1 = VInt 2"
    using e1 by blast
  from e2 [where l = "l1(''x'' \<mapsto> r1)" and w = w1 and x = r1] v1
  obtain r2 g2 l2 w2
    where a2: "py_eval py ''x + 3'' (no_builtins py) (l1(''x'' \<mapsto> r1)) w1
                 = (Inr r2, g2, l2, w2)"
      and v2: "py_value py w2 r2 = VInt 5"
    by auto
  from e3 [where l = "l2(''x'' \<mapsto> r1, ''y'' \<mapsto> r2)" and w = w2 and y = r2] v2
  obtain r3 g3 l3 w3
    where a3: "py_eval py ''y'' (no_builtins py) (l2(''x'' \<mapsto> r1, ''y'' \<mapsto> r2)) w2
                 = (Inr r3, g3, l3, w3)"
      and v3: "py_value py w3 r3 = VInt 5"
    by auto
  show "\<exists>s'. recalculate_changed_lines_old py xy_document s = Inr s'
            \<and> line_results s' = [0 \<mapsto> ''x = 2'', 1 \<mapsto> ''y = 5'', 2 \<mapsto> ''5'']"
    by (simp add: recalculate_changed_lines_old_def xy_lines xy_items reset_def process_item_def
        eval_item_def show_result_def handle_exception_def is_assignment_old_def first_field_def
        comparison_ops_def str_int_digit str_defs num_defs a1 a2 a3 v1 v2 v3
        numeral_2_eq_2 Let_def)
qed

theorem recalculate_xy_witness:
  "(\<exists>s'. recalculate_changed_lines demo_py xy_document fresh = Inr s'
            \<and> line_results s' = [0 \<mapsto> ''x = 2'', 1 \<mapsto> ''y = 5'', 2 \<mapsto> ''5''])
       \<and> (\<exists>s'. recalculate_changed_lines_old demo_py xy_document fresh = Inr s'
            \<and> line_results s' = [0 \<mapsto> ''x = 2'', 1 \<mapsto> ''y = 5'', 2 \<mapsto> ''5''])"
proof (rule recalculate_xy)
  show "\<exists>r g l' w'. py_eval demo_py ''2'' (no_builtins demo_py) l w = (Inr r, g, l', w')
          \<and> py_value demo_py w' r = VInt 2" for l w
    by (simp add: demo_defs)
  show "\<exists>r g l' w'. py_eval demo_py ''x + 3'' (no_builtins demo_py) l w = (Inr r, g, l', w')
          \<and> py_value demo_py w' r = VInt 5"
    if "l ''x'' = Some x" and "py_value demo_py w x = VInt 2" for l w x
    using that by (simp add: demo_defs map_add_def)
  show "\<exists>r g l' w'. py_eval demo_py ''y'' (no_builtins demo_py) l w = (Inr r, g, l', w')
          \<and> py_value demo_py w' r = VInt 5"
    if "l ''y'' = Some y" and "py_value demo_py w y = VInt 5" for l w y
    using that by (simp add: demo_defs map_add_def)
qed

subsection \<open>C5: floats\<close>

text \<open>
  C5, as stated, fails at \<open>1e12\<close> with precision 6: the code prints six digits after the
  point, seven significant digits, where scientific notation at six significant digits is
  \<open>1.00000e+12\<close>.
\<close>

theorem format_float_digits_counterexample:
  "format_result_old demo_py 6 (VFloat float_1e12) = Inr ''1.000000e+12''
   \<and> format_result demo_py 6 (VFloat float_1e12) = Inr ''1.000000e+12''
   \<and> spec_format_float 6 float_1e12 = ''1.00000e+12''"
  by (simp add: format_1e12) (simp add: spec_format_float_def fmt_defs num_defs)

text \<open>
  C5, amended. For every float \<open>v\<close>, \<open>format_result\<close> of both trees returns
  \<open>f"{v:.{precision}e}"\<close> when \<open>|v| > 1e10\<close> or \<open>0 < |v| < 1e-4\<close>, and \<open>f"{v:.{precision}g}"\<close>,
  general notation at \<open>precision\<close> significant digits, otherwise; \<open>1e12\<close> at precision 6 gives
  \<open>1.000000e+12\<close> and \<open>1.0/3.0\<close> at precision 6 gives \<open>0.333333\<close>. The scientific format of a
  finite float has one digit before the point and \<open>precision\<close> digits after it, which is
  \<open>precision + 1\<close> significant digits.
\<close>

theorem format_float_rule:
  "format_result_old py p (VFloat x) =
     Inr (if float_gt (float_abs x) float_1e10
             \<or> (float_lt float_zero (float_abs x) \<and> float_lt (float_abs x) float_1em4)
          then format_e p x else format_g p x)
   \<and> format_result py p (VFloat x) = format_result_old py p (VFloat x)
   \<and> format_result_old py 6 (VFloat float_1e12) = Inr ''1.000000e+12''
   \<and> format_result_old py 6 (VFloat float_third) = Inr ''0.333333''
   \<and> (\<exists>d ds x. length ds = p
         \<and> format_e p (Fin s m e) = sign_text s @ with_point [d] ds @ ''e'' @ exp_text x)"
proof (intro conjI)
  show "format_result_old py p (VFloat x) =
     Inr (if float_gt (float_abs x) float_1e10
             \<or> (float_lt float_zero (float_abs x) \<and> float_lt (float_abs x) float_1em4)
          then format_e p x else format_g p x)"
    by (simp add: format_float_cases)
  show "format_result py p (VFloat x) = format_result_old py p (VFloat x)"
    by simp
  show "format_result_old py 6 (VFloat float_1e12) = Inr ''1.000000e+12''"
    by (simp add: format_1e12)
  show "format_result_old py 6 (VFloat float_third) = Inr ''0.333333''"
    by (simp add: format_third)
  show "\<exists>d ds x. length ds = p
         \<and> format_e p (Fin s m e) = sign_text s @ with_point [d] ds @ ''e'' @ exp_text x"
    by (rule format_e_shape)
qed

theorem format_float_rule_witness:
  "format_result_old demo_py 6 (VFloat (Fin False 1 (- 20))) = Inr ''9.536743e-07''
   \<and> format_result demo_py 6 (VFloat (Fin False 1 (- 20))) = Inr ''9.536743e-07''
   \<and> format_result_old demo_py 6 (VFloat (float_of_nat 123456789)) = Inr ''1.23457e+08''"
  using format_float_rule [of demo_py 6 "Fin False 1 (- 20)"]
    format_float_rule [of demo_py 6 "float_of_nat 123456789"]
  by (simp add: fmt_defs num_defs)

subsection \<open>C6: complex numbers\<close>

text \<open>
  C6, as stated, fails at \<open>0+1e12j\<close>: the imaginary part is not formatted by the recursive
  call, which would print \<open>1.000000e+12\<close>, but by \<open>f"{imag:.{precision}g}"\<close>.
\<close>

theorem format_complex_counterexample:
  "format_result_old demo_py 6 (VComplex float_zero float_1e12) = Inr ''1e+12j''
   \<and> format_result demo_py 6 (VComplex float_zero float_1e12) = Inr ''1e+12j''
   \<and> spec_format_complex (format_result_old demo_py 6) 6 float_zero float_1e12
       = Inr ''1.000000e+12j''"
proof (intro conjI)
  have c: "\<not> float_eq float_1e12 float_zero" "float_eq float_zero float_zero"
    by (simp_all add: fmt_defs)
  show "format_result_old demo_py 6 (VComplex float_zero float_1e12) = Inr ''1e+12j''"
    by (simp add: format_complex_def c format_g_1e12)
  show "format_result demo_py 6 (VComplex float_zero float_1e12) = Inr ''1e+12j''"
    by (simp add: format_complex_def c format_g_1e12)
  show "spec_format_complex (format_result_old demo_py 6) 6 float_zero float_1e12
      = Inr ''1.000000e+12j''"
    by (simp add: spec_format_complex_def c format_1e12)
qed

text \<open>
  C6, amended. For every complex value, \<open>format_result\<close> of both trees returns the real part
  formatted recursively when the imaginary part is zero; otherwise the imaginary part in general
  notation \<open>f"{imag:.{precision}g}"\<close> with the suffix \<open>j\<close> when the real part is zero; otherwise
  \<open>(real+imagj)\<close> or \<open>(real-imagj)\<close>, both parts in general notation, with an explicit \<open>+\<close>
  exactly when the imaginary part is non-negative. So \<open>3+4j\<close> gives \<open>(3+4j)\<close>, \<open>0+5j\<close> gives
  \<open>5j\<close> and \<open>5+0j\<close> gives \<open>5\<close>.
\<close>

theorem format_complex_rule:
  "format_result_old py p (VComplex re im) =
     (if float_eq im float_zero then format_result_old py p (VFloat re)
      else if float_eq re float_zero then Inr (format_g p im @ ''j'')
      else Inr (''('' @ format_g p re @ (if float_ge im float_zero then ''+'' else [])
                  @ format_g p im @ ''j)''))
   \<and> format_result py p (VComplex re im) = format_result_old py p (VComplex re im)
   \<and> format_result_old py 6 (VComplex (float_of_nat 3) (float_of_nat 4)) = Inr ''(3+4j)''
   \<and> format_result_old py 6 (VComplex float_zero (float_of_nat 5)) = Inr ''5j''
   \<and> format_result_old py 6 (VComplex (float_of_nat 5) float_zero) = Inr ''5''"
proof (intro conjI)
  show "format_result_old py p (VComplex re im) =
     (if float_eq im float_zero then format_result_old py p (VFloat re)
      else if float_eq re float_zero then Inr (format_g p im @ ''j'')
      else Inr (''('' @ format_g p re @ (if float_ge im float_zero then ''+'' else [])
                  @ format_g p im @ ''j)''))"
    by (simp add: format_complex_def)
  show "format_result py p (VComplex re im) = format_result_old py p (VComplex re im)"
    by simp
  have c: "\<not> float_eq (float_of_nat 4) float_zero" "\<not> float_eq (float_of_nat 3) float_zero"
    "\<not> float_eq (float_of_nat 5) float_zero" "float_eq float_zero float_zero"
    "float_ge (float_of_nat 4) float_zero"
    by (simp_all add: fmt_defs)
  show "format_result_old py 6 (VComplex (float_of_nat 3) (float_of_nat 4)) = Inr ''(3+4j)''"
    by (simp add: format_complex_def c format_g_small)
  show "format_result_old py 6 (VComplex float_zero (float_of_nat 5)) = Inr ''5j''"
    by (simp add: format_complex_def c format_g_small)
  show "format_result_old py 6 (VComplex (float_of_nat 5) float_zero) = Inr ''5''"
    by (simp add: fmt_defs num_defs)
qed

theorem format_complex_rule_witness:
  "format_result_old demo_py 6 (VComplex (float_of_nat 3) (Fin True 4 0)) = Inr ''(3-4j)''
   \<and> format_result demo_py 6 (VComplex (float_of_nat 3) (Fin True 4 0)) = Inr ''(3-4j)''"
proof -
  have c: "\<not> float_eq (Fin True 4 0) float_zero" "\<not> float_eq (float_of_nat 3) float_zero"
    "\<not> float_ge (Fin True 4 0) float_zero"
    by (simp_all add: fmt_defs)
  from format_complex_rule [of demo_py 6 "float_of_nat 3" "Fin True 4 0"]
  show ?thesis by (simp add: c format_g_small)
qed

subsection \<open>C7: sequences\<close>

text \<open>
  C7, as stated, fails at a list of eleven integers: the old tree wraps the long form in
  brackets too, and the current tree has no rule for sequences and prints the whole list. It
  fails in the old tree at a list that holds an object whose \<open>str\<close> raises, too: the element
  cannot be formatted, and the code returns \<open>str\<close> of the list.
\<close>

theorem format_sequence_counterexample:
  "format_result_old demo_py 6 (VIter Sequence ''list'' eleven_ints)
     = Inr ''[0, 1, 2, ... (11 items)]''
   \<and> spec_format_sequence (format_result_old demo_py 6) eleven_ints
     = Inr ''0, 1, 2, ... (11 items)''
   \<and> format_result demo_py 6 (VIter Sequence ''list'' eleven_ints)
     = Inr ''[0, 1, 2, 3, 4, 5, 6, 7, 8, 9, 10]''
   \<and> format_result_old demo_py 6 (VIter Sequence ''list'' [unprintable]) = Inr ''[<U>]''
   \<and> spec_format_sequence (format_result_old demo_py 6) [unprintable]
     = Inl (Exception ''no text'')"
proof (intro conjI)
  have small: "str_int_limited 4300 i = Inr (str_int i)" if "\<bar>i\<bar> < 10" for i
    using that by (rule str_int_digit)
  have ten: "str_int_limited 4300 10 = Inr ''10''"
    by (simp add: str_int_limited_def num_defs)
  show "format_result_old demo_py 6 (VIter Sequence ''list'' eleven_ints)
     = Inr ''[0, 1, 2, ... (11 items)]''"
    by (simp add: eleven_ints_def join_def str_nat_11 demo_py_def small)
      (simp add: num_defs)
  show "spec_format_sequence (format_result_old demo_py 6) eleven_ints
     = Inr ''0, 1, 2, ... (11 items)''"
    by (simp add: eleven_ints_def spec_format_sequence_def join_def str_nat_11 demo_py_def small)
      (simp add: num_defs)
  show "format_result demo_py 6 (VIter Sequence ''list'' eleven_ints)
     = Inr ''[0, 1, 2, 3, 4, 5, 6, 7, 8, 9, 10]''"
    by (simp add: eleven_ints_def str_truncated_def join_def demo_py_def small ten
        truncate200_def)
      (simp add: num_defs)
  show "format_result_old demo_py 6 (VIter Sequence ''list'' [unprintable]) = Inr ''[<U>]''"
    by (simp add: unprintable_def str_truncated_def demo_py_def join_def)
  show "spec_format_sequence (format_result_old demo_py 6) [unprintable]
     = Inl (Exception ''no text'')"
    by (simp add: spec_format_sequence_def unprintable_def str_truncated_def demo_py_def)
qed

text \<open>
  C7, amended. For every sequence that is not a string (an object with \<open>__iter__\<close>, \<open>len\<close>
  and slices: a list, a tuple, a range, bytes, an array), \<open>format_result\<close> of the old tree
  formats recursively the first three elements when the length is above 10 and all the
  elements otherwise. When each of them can be formatted, it returns, between \<open>[\<close> and \<open>]\<close>,
  their texts joined by \<open>", "\<close>, followed by \<open>", ... (N items)"\<close> with \<open>N\<close> the length when the
  length is above 10. When formatting one of them raises, it returns \<open>str\<close> of the sequence
  instead, or raises what that raises. \<open>format_result\<close> of the current tree has no rule for
  sequences: it returns \<open>str\<close> of the sequence, cut to 200 characters and \<open>...\<close> when it is
  longer, or raises what \<open>str\<close> raises.
\<close>

theorem format_sequence_rule:
  "(map (format_result_old py p) (if 10 < length xs then take 3 xs else xs) = map Inr texts
      \<longrightarrow> format_result_old py p (VIter Sequence name xs)
          = Inr (''['' @ join '', '' texts
                   @ (if 10 < length xs then '', ... ('' @ str_nat (length xs) @ '' items)''
                      else [])
                   @ '']''))
   \<and> ((\<exists>x \<in> set (if 10 < length xs then take 3 xs else xs).
          \<exists>e. format_result_old py p x = Inl e)
      \<longrightarrow> format_result_old py p (VIter Sequence name xs) = py_str py (VIter Sequence name xs))
   \<and> format_result py p (VIter kind name xs)
       = (case py_str py (VIter kind name xs) of
            Inl e \<Rightarrow> Inl e
          | Inr result_str \<Rightarrow> Inr (truncate200 result_str))"
proof (intro conjI impI)
  assume "map (format_result_old py p) (if 10 < length xs then take 3 xs else xs)
      = map Inr texts"
  then have "10 < length xs \<Longrightarrow>
        collect_texts (map (format_result_old py p) (take 3 xs)) = Inr texts"
    and "\<not> 10 < length xs \<Longrightarrow> collect_texts (map (format_result_old py p) xs) = Inr texts"
    by (simp_all add: collect_texts_all)
  then show "format_result_old py p (VIter Sequence name xs)
          = Inr (''['' @ join '', '' texts
                   @ (if 10 < length xs then '', ... ('' @ str_nat (length xs) @ '' items)''
                      else [])
                   @ '']'')"
    by simp
next
  assume "\<exists>x \<in> set (if 10 < length xs then take 3 xs else xs).
          \<exists>e. format_result_old py p x = Inl e"
  then obtain x e where "x \<in> set (if 10 < length xs then take 3 xs else xs)"
    and "format_result_old py p x = Inl e"
    by blast
  then have "Inl e \<in> set (map (format_result_old py p)
      (if 10 < length xs then take 3 xs else xs))"
    by force
  then obtain e' where "collect_texts (map (format_result_old py p)
      (if 10 < length xs then take 3 xs else xs)) = Inl e'"
    using collect_texts_raised by blast
  then have "10 < length xs \<Longrightarrow>
        collect_texts (map (format_result_old py p) (take 3 xs)) = Inl e'"
    and "\<not> 10 < length xs \<Longrightarrow> collect_texts (map (format_result_old py p) xs) = Inl e'"
    by simp_all
  then show "format_result_old py p (VIter Sequence name xs) = py_str py (VIter Sequence name xs)"
    by simp
next
  show "format_result py p (VIter kind name xs)
       = (case py_str py (VIter kind name xs) of
            Inl e \<Rightarrow> Inl e
          | Inr result_str \<Rightarrow> Inr (truncate200 result_str))"
    by (simp add: str_truncated_def)
qed

theorem format_sequence_rule_witness:
  "format_result_old demo_py 6
       (VIter Sequence ''list''
          [VInt 1, VFloat float_third, VIter Sequence ''tuple'' [VBool True, VNone]])
     = Inr ''[1, 0.333333, [True, None]]''
   \<and> format_result_old demo_py 6 (VIter Sequence ''list'' [VInt (int big_nat)])
     = Inl (Exception (digits_error 4300))
   \<and> format_result demo_py 6 (VIter Sequence ''list'' [VInt (int big_nat)])
     = Inl (Exception (digits_error 4300))"
proof -
  let ?inner = "[VBool True, VNone]"
  let ?outer = "[VInt 1, VFloat float_third, VIter Sequence ''tuple'' ?inner]"
  let ?big = "[VInt (int big_nat)]"
  have inner: "map (format_result_old demo_py 6) (if 10 < length ?inner then take 3 ?inner else ?inner)
      = map Inr [''True'', ''None'']"
    by (simp add: str_bool_def)
  from format_sequence_rule [of demo_py 6 ?inner "[''True'', ''None'']" "''tuple''" Sequence]
    inner
  have t: "format_result_old demo_py 6 (VIter Sequence ''tuple'' ?inner) = Inr ''[True, None]''"
    unfolding join_def by simp
  have one: "format_result_old demo_py 6 (VInt 1) = Inr ''1''"
    by (simp add: demo_py_def str_int_digit num_defs)
  have third: "format_result_old demo_py 6 (VFloat float_third) = Inr ''0.333333''"
    by (simp add: format_third)
  have outer: "map (format_result_old demo_py 6) (if 10 < length ?outer then take 3 ?outer else ?outer)
      = map Inr [''1'', ''0.333333'', ''[True, None]'']"
    using t one third by simp
  from format_sequence_rule [of demo_py 6 ?outer "[''1'', ''0.333333'', ''[True, None]'']"
      "''list''" Sequence] outer
  have a: "format_result_old demo_py 6 (VIter Sequence ''list'' ?outer)
      = Inr ''[1, 0.333333, [True, None]]''"
    unfolding join_def by simp
  have bad: "format_result_old demo_py 6 (VInt (int big_nat)) = Inl (Exception (digits_error 4300))"
    by (simp add: demo_py_def str_big_nat)
  then have "\<exists>x \<in> set (if 10 < length ?big then take 3 ?big else ?big).
      \<exists>e. format_result_old demo_py 6 x = Inl e"
    by simp
  with format_sequence_rule [of demo_py 6 ?big "[]" "''list''" Sequence]
  have "format_result_old demo_py 6 (VIter Sequence ''list'' ?big)
      = py_str demo_py (VIter Sequence ''list'' ?big)"
    and "format_result demo_py 6 (VIter Sequence ''list'' ?big)
       = (case py_str demo_py (VIter Sequence ''list'' ?big) of
            Inl e \<Rightarrow> Inl e
          | Inr result_str \<Rightarrow> Inr (truncate200 result_str))"
    by blast+
  then have b: "format_result_old demo_py 6 (VIter Sequence ''list'' ?big)
      = Inl (Exception (digits_error 4300))"
    and c: "format_result demo_py 6 (VIter Sequence ''list'' ?big)
      = Inl (Exception (digits_error 4300))"
    by (simp_all add: demo_py_def str_big_nat)
  from a b c show ?thesis by simp
qed

subsection \<open>C8: recalculating twice\<close>

text \<open>
  C8. Running the recalculation twice on the same text gives the same \<open>line_results\<close>: the
  second pass starts from the base namespace again. This holds for every text whose first
  pass has left the objects as they were, which arithmetic expressions do. In the current
  tree the second pass then ends in the very state the first one ended in; in the old tree the
  two end states differ only in the history. And the objects are as they were after every pass
  of a runtime whose \<open>eval\<close> and \<open>exec\<close> change no object.
\<close>

theorem recalculate_twice:
  "(recalculate_changed_lines py text s = Inr s1 \<and> objects s1 = objects s
      \<longrightarrow> recalculate_changed_lines py text s1 = Inr s1)
   \<and> (recalculate_changed_lines_old py text s = Inr t1 \<and> objects t1 = objects s
      \<longrightarrow> (\<exists>t2. recalculate_changed_lines_old py text t1 = Inr t2
             \<and> line_results t2 = line_results t1 \<and> variables t2 = variables t1))
   \<and> ((\<forall>src g l w. snd (snd (snd (py_eval py src g l w))) = w)
        \<and> (\<forall>src g w. snd (snd (py_exec py src g w)) = w)
      \<longrightarrow> (recalculate_changed_lines py text s = Inr s1 \<longrightarrow> objects s1 = objects s)
          \<and> (recalculate_changed_lines_old py text s = Inr t1 \<longrightarrow> objects t1 = objects s))"
proof (intro conjI impI)
  assume "recalculate_changed_lines py text s = Inr s1 \<and> objects s1 = objects s"
  then show "recalculate_changed_lines py text s1 = Inr s1"
    by (blast intro: recalculate_again)
next
  assume "recalculate_changed_lines_old py text s = Inr t1 \<and> objects t1 = objects s"
  then obtain t2 where t2: "recalculate_changed_lines_old py text t1 = Inr t2"
    and eq: "forget_history t2 = forget_history t1"
    using recalculate_again_old by blast
  from eq have "line_results (forget_history t2) = line_results (forget_history t1)"
    and "variables (forget_history t2) = variables (forget_history t1)"
    by simp_all
  with t2 show "\<exists>t2. recalculate_changed_lines_old py text t1 = Inr t2
             \<and> line_results t2 = line_results t1 \<and> variables t2 = variables t1"
    by simp
next
  assume pure: "(\<forall>src g l w. snd (snd (snd (py_eval py src g l w))) = w)
        \<and> (\<forall>src g w. snd (snd (py_exec py src g w)) = w)"
    and "recalculate_changed_lines py text s = Inr s1"
  then show "objects s1 = objects s"
    by (auto simp: recalculate_changed_lines_def dest: process_lines_objects)
next
  assume pure: "(\<forall>src g l w. snd (snd (snd (py_eval py src g l w))) = w)
        \<and> (\<forall>src g w. snd (snd (py_exec py src g w)) = w)"
    and "recalculate_changed_lines_old py text s = Inr t1"
  then show "objects t1 = objects s"
    by (auto simp: recalculate_changed_lines_old_def dest: process_items_objects)
qed

theorem recalculate_twice_witness:
  "(\<exists>s1. recalculate_changed_lines demo_py sum_document fresh = Inr s1
      \<and> recalculate_changed_lines demo_py sum_document s1 = Inr s1
      \<and> line_results s1 = [0 \<mapsto> ''3'', 1 \<mapsto> ''7''])
   \<and> (\<exists>t1 t2. recalculate_changed_lines_old demo_py sum_document fresh = Inr t1
      \<and> recalculate_changed_lines_old demo_py sum_document t1 = Inr t2
      \<and> line_results t1 = [0 \<mapsto> ''3'', 1 \<mapsto> ''7'']
      \<and> line_results t2 = [0 \<mapsto> ''3'', 1 \<mapsto> ''7''])"
proof -
  obtain s1 where s1: "recalculate_changed_lines demo_py sum_document fresh = Inr s1"
    and r1: "line_results s1 = [0 \<mapsto> ''3'', 1 \<mapsto> ''7'']"
    by (simp add: recalculate_changed_lines_def sum_lines reset_def process_line_def
        eval_line_def handle_exception_def is_assignment_def comparison_ops_def no_builtins_def
        str_int_digit str_defs num_defs demo_defs fresh_def)
  obtain t1 where t1: "recalculate_changed_lines_old demo_py sum_document fresh = Inr t1"
    and q1: "line_results t1 = [0 \<mapsto> ''3'', 1 \<mapsto> ''7'']"
    by (simp add: recalculate_changed_lines_old_def sum_lines sum_items reset_def
        process_item_def eval_item_def show_result_def handle_exception_def
        is_assignment_old_def first_field_def comparison_ops_def
        no_builtins_def str_int_digit str_defs num_defs demo_defs fresh_def Let_def)
  have pure: "(\<forall>src g l w. snd (snd (snd (py_eval demo_py src g l w))) = w)
        \<and> (\<forall>src g w. snd (snd (py_exec demo_py src g w)) = w)"
    by simp
  from recalculate_twice [of demo_py sum_document fresh s1 t1] s1 t1 pure
  obtain t2 where "recalculate_changed_lines demo_py sum_document s1 = Inr s1"
    and "recalculate_changed_lines_old demo_py sum_document t1 = Inr t2"
    and "line_results t2 = line_results t1"
    by auto
  with s1 r1 t1 q1 show ?thesis by auto
qed

subsection \<open>C9: deleting a variable\<close>

text \<open>
  C9 fails on the code. With the document \<open>x = 2\<close>, \<open>x + 1\<close> recalculated, deleting \<open>x\<close> removes
  it and recalculates; the pass resets the namespace and evaluates \<open>x = 2\<close> again, so \<open>x\<close> is
  bound as before and line 1 shows \<open>3\<close> again, not an error. In the current tree the state
  after the deletion is the state before it.
\<close>

theorem delete_variable_restores:
  "(\<exists>s1. recalculate_changed_lines demo_py x_document fresh = Inr s1
      \<and> variables s1 ''x'' = Some (VInt 2) \<and> line_results s1 1 = Some ''3''
      \<and> delete_variable demo_py (Some x_document) ''x'' s1 = Inr s1)
   \<and> (\<exists>t1 t2. recalculate_changed_lines_old demo_py x_document fresh = Inr t1
      \<and> variables t1 ''x'' = Some (VInt 2) \<and> line_results t1 1 = Some ''3''
      \<and> delete_variable_old demo_py (Some x_document) ''x'' t1 = Inr t2
      \<and> variables t2 ''x'' = Some (VInt 2) \<and> line_results t2 1 = Some ''3'')"
proof
  obtain s1 where s1: "recalculate_changed_lines demo_py x_document fresh = Inr s1"
    and v: "variables s1 ''x'' = Some (VInt 2)" and r: "line_results s1 1 = Some ''3''"
    by (simp add: recalculate_changed_lines_def x_lines reset_def process_line_def
        eval_line_def handle_exception_def is_assignment_def comparison_ops_def no_builtins_def
        str_int_digit str_defs num_defs demo_defs fresh_def)
  from v have "''x'' \<in> dom (variables s1)" by auto
  then have "delete_variable demo_py (Some x_document) ''x'' s1
      = recalculate_changed_lines demo_py x_document s1"
    by (rule delete_variable_recalculates)
  also have "\<dots> = Inr s1" using s1 by (rule recalculate_again) simp
  finally show "\<exists>s1. recalculate_changed_lines demo_py x_document fresh = Inr s1
      \<and> variables s1 ''x'' = Some (VInt 2) \<and> line_results s1 1 = Some ''3''
      \<and> delete_variable demo_py (Some x_document) ''x'' s1 = Inr s1"
    using s1 v r by blast
next
  obtain t1 where t1: "recalculate_changed_lines_old demo_py x_document fresh = Inr t1"
    and v: "variables t1 ''x'' = Some (VInt 2)" and r: "line_results t1 1 = Some ''3''"
    by (simp add: recalculate_changed_lines_old_def x_lines x_items reset_def
        process_item_def eval_item_def show_result_def handle_exception_def
        is_assignment_old_def first_field_def comparison_ops_def
        no_builtins_def str_int_digit str_defs num_defs demo_defs fresh_def Let_def)
  from v have "''x'' \<in> dom (variables t1)" by auto
  then have d: "delete_variable_old demo_py (Some x_document) ''x'' t1
      = recalculate_changed_lines_old demo_py x_document t1"
    by (rule delete_variable_recalculates)
  have "objects t1 = objects fresh" by simp
  from recalculate_again_old [OF t1 this] obtain t2
    where t2: "recalculate_changed_lines_old demo_py x_document t1 = Inr t2"
      and eq: "forget_history t2 = forget_history t1"
    by blast
  from eq have "variables (forget_history t2) = variables (forget_history t1)"
    and "line_results (forget_history t2) = line_results (forget_history t1)"
    by simp_all
  with v r have "variables t2 ''x'' = Some (VInt 2)" and "line_results t2 1 = Some ''3''"
    by simp_all
  with t1 v r d t2
  show "\<exists>t1 t2. recalculate_changed_lines_old demo_py x_document fresh = Inr t1
      \<and> variables t1 ''x'' = Some (VInt 2) \<and> line_results t1 1 = Some ''3''
      \<and> delete_variable_old demo_py (Some x_document) ''x'' t1 = Inr t2
      \<and> variables t2 ''x'' = Some (VInt 2) \<and> line_results t2 1 = Some ''3''"
    by auto
qed

subsection \<open>C10: a result that is None\<close>

text \<open>
  C10. In the current tree, a single-line expression unit whose evaluation succeeds with the
  value \<open>None\<close> writes nothing: the state after it is the state before it but for what the
  evaluation itself has done to the namespace and to the objects, and after the pass the line
  has no entry in \<open>line_results\<close>, so the result is not shown as \<open>None\<close>. The line is the one
  at index \<open>length before\<close> of the text, and \<open>s1\<close> is the state the pass has reached before
  it.
\<close>

theorem none_result_suppressed:
  assumes "split_on newline text = before @ line # after"
    and "process_lines py 0 before (reset s) = Inr s1"
    and "strip line \<noteq> []" and "\<not> startswith (strip line) ''#''" and "\<not> is_assignment line"
    and "py_eval py line (no_builtins py) (namespace s1) (objects s1) = (Inr r, g, l, w)"
    and "py_value py w r = VNone"
    and "recalculate_changed_lines py text s = Inr s'"
  shows "process_line py (length before) line s1 = Inr (s1\<lparr>namespace := l, objects := w\<rparr>)
       \<and> line_results s' (length before) = None"
proof -
  let ?s2 = "s1\<lparr>namespace := l, objects := w\<rparr>"
  have step: "process_line py (length before) line s1 = Inr ?s2"
    using assms(3-7) by (simp add: process_line_def eval_line_def handle_exception_def)
  have "process_lines py 0 (before @ line # after) (reset s) = Inr s'"
    using assms(1,8) by (simp add: recalculate_changed_lines_def)
  then have rest: "process_lines py (Suc (length before)) after ?s2 = Inr s'"
    using assms(2) step by (simp add: process_lines_append)
  have "line_results s1 (length before) = line_results (reset s) (length before)"
    using process_lines_frame(4)[OF assms(2)] by simp
  moreover have "line_results s' (length before) = line_results ?s2 (length before)"
    using process_lines_frame(4)[OF rest] by simp
  ultimately show ?thesis using step by (simp add: reset_def)
qed

theorem none_result_suppressed_witness:
  "\<exists>s'. recalculate_changed_lines demo_py (''1 + 1'' @ [newline] @ ''None'') fresh = Inr s'
     \<and> line_results s' 0 = Some ''2'' \<and> line_results s' 1 = None"
proof -
  let ?text = "''1 + 1'' @ [newline] @ ''None''"
  let ?s1 = "(reset fresh)\<lparr>line_results := [0 \<mapsto> ''2'']\<rparr>"
  have h1: "split_on newline ?text = [''1 + 1''] @ ''None'' # []"
    by (simp add: newline_def)
  have h2: "process_lines demo_py 0 [''1 + 1''] (reset fresh) = Inr ?s1"
    by (simp add: str_int_digit str_defs num_defs demo_defs cur_defs fresh_def)
  have h3: "strip ''None'' \<noteq> []" and h4: "\<not> startswith (strip ''None'') ''#''"
    and h5: "\<not> is_assignment ''None''"
    by (simp_all add: str_defs cur_defs)
  have h6: "py_eval demo_py ''None'' (no_builtins demo_py) (namespace ?s1) (objects ?s1)
      = (Inr VNone, no_builtins demo_py, namespace ?s1, objects ?s1)"
    by (simp add: demo_defs)
  have h7: "py_value demo_py (objects ?s1) VNone = VNone"
    by (simp add: demo_py_def)
  have h8: "recalculate_changed_lines demo_py ?text fresh = Inr ?s1"
    by (simp add: str_int_digit str_defs newline_def num_defs demo_defs cur_defs fresh_def)
  from none_result_suppressed [OF h1 h2 h3 h4 h5 h6 h7 h8]
  have "line_results ?s1 (length [''1 + 1'']) = None" by simp
  with h8 show ?thesis by simp
qed

end
